theory Spec2Isabelle
  imports Main "HOL-Library.Word"
begin

section \<open>The byte source\<close>

text \<open>
  The decoders of \<^verbatim>\<open>prefetch.py\<close> read a seekable binary stream (a file opened in
  binary mode, or a \<^verbatim>\<open>BytesIO\<close>): immutable bytes and a cursor. \<^verbatim>\<open>seek\<close> is absolute
  and may move beyond the end; \<^verbatim>\<open>read(n)\<close> returns the at most \<^verbatim>\<open>n\<close> bytes that are left
  and advances the cursor by the number of bytes returned. Offsets, counts and lengths
  are unsigned fields of the file, hence \<^typ>\<open>nat\<close>.
\<close>

type_synonym byte = "8 word"

record bytestream =
  data :: "byte list"
  pos :: nat

definition BytesIO :: "byte list \<Rightarrow> bytestream" where
  "BytesIO bs = \<lparr>data = bs, pos = 0\<rparr>"

definition tell :: "bytestream \<Rightarrow> nat" where
  "tell s = pos s"

definition seek :: "bytestream \<Rightarrow> nat \<Rightarrow> bytestream" where
  "seek s off = s\<lparr>pos := off\<rparr>"

definition read :: "bytestream \<Rightarrow> nat \<Rightarrow> byte list \<times> bytestream" where
  "read s n = (let bs = take n (drop (pos s) (data s)) in (bs, s\<lparr>pos := pos s + length bs\<rparr>))"

section \<open>Exceptions and the parsing library\<close>

text \<open>
  An exception is a value: every decoder returns its outcome together with the stream
  as the call left it, since an exception does not undo the reads made before it.
\<close>

datatype error =
  StreamError | ConstError | MappingError | UnicodeDecodeError | DecompressError

text \<open>
  A parser of the \<^verbatim>\<open>construct\<close> library, applied to a stream with \<^verbatim>\<open>parse_stream\<close>: it
  sees the bytes and the cursor, and returns a value or raises, leaving the cursor
  where its reads ended. It cannot change the bytes.
\<close>

type_synonym 'a construct = "byte list \<Rightarrow> nat \<Rightarrow> (error + 'a) \<times> nat"

definition parse_stream :: "'a construct \<Rightarrow> bytestream \<Rightarrow> (error + 'a) \<times> bytestream" where
  "parse_stream c s = (case c (data s) (pos s) of (r, p) \<Rightarrow> (r, seek s p))"

definition parse :: "'a construct \<Rightarrow> byte list \<Rightarrow> error + 'a" where
  "parse c bs = fst (parse_stream c (BytesIO bs))"

text \<open>\<^verbatim>\<open>construct\<close> reads exactly \<^verbatim>\<open>n\<close> bytes or raises \<^verbatim>\<open>StreamError\<close>.\<close>

definition stream_read :: "nat \<Rightarrow> byte list construct" where
  "stream_read n bs p =
     (let got = take n (drop p bs)
      in if length got = n then (Inr got, p + n) else (Inl StreamError, p + length got))"

fun le_nat :: "byte list \<Rightarrow> nat" where
  "le_nat [] = 0"
| "le_nat (b # bs) = unat b + 256 * le_nat bs"

definition IntNul :: "nat \<Rightarrow> nat construct" where
  "IntNul n bs p =
     (case stream_read n bs p of
        (Inl e, q) \<Rightarrow> (Inl e, q)
      | (Inr got, q) \<Rightarrow> (Inr (le_nat got), q))"

definition Int16ul :: "nat construct" where
  "Int16ul = IntNul 2"

section \<open>Python strings and codecs\<close>

text \<open>
  A decoded text is the list of its code points; the text that \<^verbatim>\<open>hex\<close> prints is ASCII
  and is written as a \<^typ>\<open>string\<close>.
\<close>

type_synonym ustring = "nat list"

definition cont :: "nat \<Rightarrow> bool" where
  "cont b = (128 \<le> b \<and> b \<le> 191)"

text \<open>The strict UTF-8 decoder, on byte values.\<close>

fun utf8_points :: "nat list \<Rightarrow> ustring option" where
  "utf8_points [] = Some []"
| "utf8_points (b0 # bs) =
     (if b0 < 128 then map_option ((#) b0) (utf8_points bs)
      else if 194 \<le> b0 \<and> b0 \<le> 223 then
        (case bs of
           b1 # r \<Rightarrow>
             if cont b1
             then map_option ((#) ((b0 - 192) * 64 + (b1 - 128))) (utf8_points r)
             else None
         | _ \<Rightarrow> None)
      else if 224 \<le> b0 \<and> b0 \<le> 239 then
        (case bs of
           b1 # b2 # r \<Rightarrow>
             if cont b1 \<and> cont b2 \<and> (if b0 = 224 then 160 \<le> b1 else True)
                \<and> (if b0 = 237 then b1 \<le> 159 else True)
             then map_option ((#) ((b0 - 224) * 4096 + (b1 - 128) * 64 + (b2 - 128)))
                    (utf8_points r)
             else None
         | _ \<Rightarrow> None)
      else if 240 \<le> b0 \<and> b0 \<le> 244 then
        (case bs of
           b1 # b2 # b3 # r \<Rightarrow>
             if cont b1 \<and> cont b2 \<and> cont b3 \<and> (if b0 = 240 then 144 \<le> b1 else True)
                \<and> (if b0 = 244 then b1 \<le> 143 else True)
             then map_option
                    ((#) ((b0 - 240) * 262144 + (b1 - 128) * 4096 + (b2 - 128) * 64 + (b3 - 128)))
                    (utf8_points r)
             else None
         | _ \<Rightarrow> None)
      else None)"

definition decode_utf8 :: "byte list \<Rightarrow> error + ustring" where
  "decode_utf8 bs =
     (case utf8_points (map unat bs) of None \<Rightarrow> Inl UnicodeDecodeError | Some s \<Rightarrow> Inr s)"

text \<open>
  The \<^verbatim>\<open>UTF16\<close> codec: a leading byte order mark is consumed and selects the byte order,
  little endian (the byte order of the platforms the tool runs on) otherwise; an odd
  number of bytes and an unpaired surrogate raise.
\<close>

fun utf16_units :: "bool \<Rightarrow> nat list \<Rightarrow> nat list option" where
  "utf16_units little [] = Some []"
| "utf16_units little [b] = None"
| "utf16_units little (b0 # b1 # bs) =
     map_option ((#) (if little then b0 + 256 * b1 else b1 + 256 * b0)) (utf16_units little bs)"

fun utf16_points :: "nat list \<Rightarrow> ustring option" where
  "utf16_points [] = Some []"
| "utf16_points (u # us) =
     (if 55296 \<le> u \<and> u \<le> 56319 then
        (case us of
           v # r \<Rightarrow>
             if 56320 \<le> v \<and> v \<le> 57343
             then map_option ((#) (65536 + (u - 55296) * 1024 + (v - 56320))) (utf16_points r)
             else None
         | [] \<Rightarrow> None)
      else if 56320 \<le> u \<and> u \<le> 57343 then None
      else map_option ((#) u) (utf16_points us))"

definition decode_utf16 :: "byte list \<Rightarrow> error + ustring" where
  "decode_utf16 bs =
     (let ns = map unat bs;
          units = (if take 2 ns = [255, 254] then utf16_units True (drop 2 ns)
                   else if take 2 ns = [254, 255] then utf16_units False (drop 2 ns)
                   else utf16_units True ns)
      in case units of
           None \<Rightarrow> Inl UnicodeDecodeError
         | Some us \<Rightarrow>
             (case utf16_points us of None \<Rightarrow> Inl UnicodeDecodeError | Some s \<Rightarrow> Inr s))"

text \<open>\<^verbatim>\<open>s.strip(c)\<close>, \<^verbatim>\<open>s.split(c)\<close> for a one-character \<^verbatim>\<open>c\<close>, and \<^verbatim>\<open>s.replace(old, new)\<close>
  for a non-empty \<^verbatim>\<open>old\<close> (on \<^verbatim>\<open>str\<close> and on \<^verbatim>\<open>bytes\<close> alike).\<close>

definition strip :: "'a \<Rightarrow> 'a list \<Rightarrow> 'a list" where
  "strip c s = rev (dropWhile (\<lambda>x. x = c) (rev (dropWhile (\<lambda>x. x = c) s)))"

fun split :: "'a \<Rightarrow> 'a list \<Rightarrow> 'a list list" where
  "split sep [] = [[]]"
| "split sep (c # cs) =
     (if c = sep then [] # split sep cs
      else (case split sep cs of p # ps \<Rightarrow> (c # p) # ps | [] \<Rightarrow> [[c]]))"

fun replace :: "'a list \<Rightarrow> 'a list \<Rightarrow> 'a list \<Rightarrow> 'a list" where
  "replace [] new s = s"
| "replace (x # old) new [] = []"
| "replace (x # old) new (c # cs) =
     (if take (length (x # old)) (c # cs) = x # old
      then new @ replace (x # old) new (drop (length old) cs)
      else c # replace (x # old) new cs)"

text \<open>\<^verbatim>\<open>hex(n)\<close> and \<^verbatim>\<open>s.upper()\<close> on ASCII text.\<close>

definition hex_digit :: "nat \<Rightarrow> char" where
  "hex_digit d = ''0123456789abcdef'' ! d"

fun hex_digits :: "nat \<Rightarrow> string" where
  "hex_digits n = (if n < 16 then [hex_digit n] else hex_digits (n div 16) @ [hex_digit (n mod 16)])"

declare hex_digits.simps [simp del]

definition hex :: "int \<Rightarrow> string" where
  "hex n = (if n < 0 then ''-0x'' @ hex_digits (nat (- n)) else ''0x'' @ hex_digits (nat n))"

definition upper_char :: "char \<Rightarrow> char" where
  "upper_char c =
     (case map_of (zip ''abcdefghijklmnopqrstuvwxyz'' ''ABCDEFGHIJKLMNOPQRSTUVWXYZ'') c of
        None \<Rightarrow> c
      | Some u \<Rightarrow> u)"

definition upper :: "string \<Rightarrow> string" where
  "upper s = map upper_char s"

text \<open>\<^verbatim>\<open>PaddedString(length, encoding='utf8')\<close>: exactly \<^verbatim>\<open>length\<close> bytes, the trailing
  null bytes dropped, decoded.\<close>

definition PaddedString :: "nat \<Rightarrow> ustring construct" where
  "PaddedString n bs p =
     (case stream_read n bs p of
        (Inl e, q) \<Rightarrow> (Inl e, q)
      | (Inr got, q) \<Rightarrow>
          (case decode_utf8 (rev (dropWhile (\<lambda>b. b = 0) (rev got))) of
             Inl e \<Rightarrow> (Inl e, q)
           | Inr path \<Rightarrow> (Inr path, q)))"

text \<open>\<^verbatim>\<open>Container(**ref)\<close> builds a container with the fields of \<^verbatim>\<open>ref\<close>.\<close>

definition Container :: "'a \<Rightarrow> 'a" where
  "Container ref = ref"

section \<open>Decoded records\<close>

text \<open>
  A container that a schema parser returns is a record of the fields the decoders read;
  the decoder that adds attributes to it returns the extended record. The value of the
  version tag is the label of a known layout or a bare number.
\<close>

datatype version = Label string | Number nat

record raw_header =
  Version :: version
  RawSignature :: "byte list"
  RawExecutableName :: ustring
  RawPrefetchHash :: int

record header = raw_header +
  Signature :: ustring
  ExecutableName :: ustring
  PrefetchHash :: string

record raw_file_info =
  SectionAOffset :: nat
  SectionAEntriesCount :: nat
  SectionBOffset :: nat
  SectionBEntriesCount :: nat
  SectionCOffset :: nat
  SectionCLength :: nat
  SectionDOffset :: nat
  SectionDEntriesCount :: nat
  RawLastExecutionTime :: "nat list"

record 't file_info = raw_file_info +
  LastExecutionTime :: "'t list"

record 'r file_metrics_entry =
  FileReference :: "'r option"

record raw_volumes_info_entry =
  VolumeDevicePathOffset :: nat
  VolumeDevicePathLength :: nat
  RawVolumeCreateTime :: nat
  SectionEOffset :: nat
  SectionFOffset :: nat
  SectionFStringsCount :: nat

record 't volumes_info_entry = raw_volumes_info_entry +
  VolumeCreateTime :: 't
  VolumeDevicePath :: ustring

record 'ref file_references =
  ReferenceCount :: nat
  References :: "'ref list"

text \<open>
  The module of layout schemas, \<^verbatim>\<open>structures.prefetch\<close>, is a parameter of the decoders:
  one parser for each name that \<^verbatim>\<open>prefetch.py\<close> takes from it. A metrics entry of a
  layout without a file reference has no such attribute (\<open>None\<close>); the other fields of
  an entry are the record's extension \<open>'z\<close>.
\<close>

record ('r, 'z, 'fn, 'tc, 'ref) pfstructs =
  PrefetchVersion :: "version construct"
  PrefetchHeader :: "raw_header construct"
  PrefetchFileInformation17 :: "raw_file_info construct"
  PrefetchFileInformation23 :: "raw_file_info construct"
  PrefetchFileInformation26 :: "raw_file_info construct"
  PrefetchFileInformation30 :: "raw_file_info construct"
  PrefetchFileMetricsEntry17 :: "('r, 'z) file_metrics_entry_scheme construct"
  PrefetchFileMetricsEntry23 :: "('r, 'z) file_metrics_entry_scheme construct"
  PrefetchFileMetricsEntry26 :: "('r, 'z) file_metrics_entry_scheme construct"
  PrefetchFileMetricsEntry30 :: "('r, 'z) file_metrics_entry_scheme construct"
  PrefetchTraceChainEntry :: "'tc construct"
  PrefetchFileNameString :: "'fn construct"
  PrefetchVolumeInformation17 :: "raw_volumes_info_entry construct"
  PrefetchVolumeInformation23 :: "raw_volumes_info_entry construct"
  PrefetchVolumeInformation26 :: "raw_volumes_info_entry construct"
  PrefetchVolumeInformation30 :: "raw_volumes_info_entry construct"
  PrefetchFileReferences :: "'ref file_references construct"

section \<open>The section decoders\<close>

text \<open>
  Every decoder takes what the method reads from \<^verbatim>\<open>self\<close> (the sections it depends on)
  and the stream, and returns the outcome and the stream. \<^verbatim>\<open>_clean_value\<close> of the parent
  class and \<^verbatim>\<open>WindowsTime.parse_filetime\<close> are parameters, taken as total functions.
  \<^verbatim>\<open>try: ... finally: stream.seek(original_position)\<close> runs the seek on every exit.
\<close>

definition finally_seek :: "'a \<times> bytestream \<Rightarrow> nat \<Rightarrow> 'a \<times> bytestream" where
  "finally_seek r original_position = (fst r, seek (snd r) original_position)"

subsection \<open>\<^verbatim>\<open>_parse_directory_strings\<close>\<close>

text \<open>The body of the loop over \<^verbatim>\<open>range(SectionFStringsCount)\<close>: the \<^verbatim>\<open>try\<close> and its
  handler, which appends \<^verbatim>\<open>None\<close>.\<close>

definition directory_string :: "bytestream \<Rightarrow> ustring option \<times> bytestream" where
  "directory_string stream =
     (case parse_stream Int16ul stream of
        (Inl e, s1) \<Rightarrow> (None, s1)
      | (Inr directory_string_length, s1) \<Rightarrow>
          (case read s1 (directory_string_length * 2 + 2) of
             (bs, s2) \<Rightarrow>
               (case decode_utf16 bs of
                  Inl e \<Rightarrow> (None, s2)
                | Inr directory_string \<Rightarrow> (Some (strip 0 directory_string), s2))))"

fun directory_strings_entry ::
  "nat \<Rightarrow> bytestream \<Rightarrow> ustring option list \<Rightarrow> ustring option list \<times> bytestream" where
  "directory_strings_entry 0 stream entry = (entry, stream)"
| "directory_strings_entry (Suc n) stream entry =
     (case directory_string stream of
        (v, s') \<Rightarrow> directory_strings_entry n s' (entry @ [v]))"

fun directory_strings_loop ::
  "nat \<Rightarrow> ('t, 'y) volumes_info_entry_scheme list \<Rightarrow> bytestream \<Rightarrow> ustring option list list
     \<Rightarrow> ustring option list list \<times> bytestream" where
  "directory_strings_loop d [] stream directory_strings = (directory_strings, stream)"
| "directory_strings_loop d (volumes_info_entry # rest) stream directory_strings =
     (case directory_strings_entry (SectionFStringsCount volumes_info_entry)
             (seek stream (d + SectionFOffset volumes_info_entry)) [] of
        (entry, s') \<Rightarrow> directory_strings_loop d rest s' (directory_strings @ [entry]))"

definition parse_directory_strings ::
  "(ustring option list list \<Rightarrow> ustring option list list) \<Rightarrow> ('t, 'x) file_info_scheme
     \<Rightarrow> ('t, 'y) volumes_info_entry_scheme list \<Rightarrow> bytestream
     \<Rightarrow> (error + ustring option list list) \<times> bytestream" where
  "parse_directory_strings clean_value file_info volumes_info stream =
     (let original_position = tell stream
      in finally_seek
           (case directory_strings_loop (SectionDOffset file_info) volumes_info stream [] of
              (directory_strings, s') \<Rightarrow> (Inr (clean_value directory_strings), s'))
           original_position)"

subsection \<open>\<^verbatim>\<open>_parse_file_references\<close>\<close>

definition file_refs_entry ::
  "'ref file_references construct \<Rightarrow> nat \<Rightarrow> ('t, 'y) volumes_info_entry_scheme \<Rightarrow> bytestream
     \<Rightarrow> 'ref file_references option \<times> bytestream" where
  "file_refs_entry P d volumes_info_entry stream =
     (case parse_stream P (seek stream (d + SectionEOffset volumes_info_entry)) of
        (Inl e, s') \<Rightarrow> (None, s')
      | (Inr entry, s') \<Rightarrow>
          (Some (entry\<lparr>References := map Container (References entry)\<rparr>), s'))"

fun file_references_loop ::
  "'ref file_references construct \<Rightarrow> nat \<Rightarrow> ('t, 'y) volumes_info_entry_scheme list \<Rightarrow> bytestream
     \<Rightarrow> 'ref file_references option list \<Rightarrow> 'ref file_references option list \<times> bytestream" where
  "file_references_loop P d [] stream file_refs = (file_refs, stream)"
| "file_references_loop P d (volumes_info_entry # rest) stream file_refs =
     (case file_refs_entry P d volumes_info_entry stream of
        (v, s') \<Rightarrow> file_references_loop P d rest s' (file_refs @ [v]))"

definition parse_file_references ::
  "('ref file_references option list \<Rightarrow> 'ref file_references option list)
     \<Rightarrow> ('r, 'z, 'fn, 'tc, 'ref) pfstructs \<Rightarrow> ('t, 'x) file_info_scheme
     \<Rightarrow> ('t, 'y) volumes_info_entry_scheme list \<Rightarrow> bytestream
     \<Rightarrow> (error + 'ref file_references option list) \<times> bytestream" where
  "parse_file_references clean_value pfs file_info volumes_info stream =
     (let original_position = tell stream
      in finally_seek
           (case file_references_loop (PrefetchFileReferences pfs) (SectionDOffset file_info)
                   volumes_info stream [] of
              (file_refs, s') \<Rightarrow> (Inr (clean_value file_refs), s'))
           original_position)"

subsection \<open>\<^verbatim>\<open>_parse_volumes_info\<close>\<close>

text \<open>The body of the loop over \<^verbatim>\<open>range(SectionDEntriesCount)\<close>; nothing in it catches
  an exception.\<close>

definition volumes_info_step ::
  "raw_volumes_info_entry construct \<Rightarrow> (nat \<Rightarrow> 't) \<Rightarrow> nat \<Rightarrow> bytestream
     \<Rightarrow> (error + 't volumes_info_entry) \<times> bytestream" where
  "volumes_info_step P parse_filetime d stream =
     (case parse_stream P stream of
        (Inl e, s1) \<Rightarrow> (Inl e, s1)
      | (Inr entry, s1) \<Rightarrow>
          (let volumes_info_position = tell s1;
               create_time = parse_filetime (RawVolumeCreateTime entry);
               s2 = seek s1 (d + VolumeDevicePathOffset entry)
           in case read s2 (VolumeDevicePathLength entry * 2) of
                (bs, s3) \<Rightarrow>
                  (case parse (PaddedString (VolumeDevicePathLength entry)) (replace [0] [] bs) of
                     Inl e \<Rightarrow> (Inl e, s3)
                   | Inr path \<Rightarrow>
                       (Inr (raw_volumes_info_entry.extend entry
                               (volumes_info_entry.fields create_time path)),
                        seek s3 volumes_info_position))))"

fun volumes_info_loop ::
  "raw_volumes_info_entry construct \<Rightarrow> (nat \<Rightarrow> 't) \<Rightarrow> nat \<Rightarrow> nat \<Rightarrow> bytestream
     \<Rightarrow> 't volumes_info_entry list \<Rightarrow> (error + 't volumes_info_entry list) \<times> bytestream" where
  "volumes_info_loop P parse_filetime d 0 stream volumes_info = (Inr volumes_info, stream)"
| "volumes_info_loop P parse_filetime d (Suc n) stream volumes_info =
     (case volumes_info_step P parse_filetime d stream of
        (Inl e, s') \<Rightarrow> (Inl e, s')
      | (Inr entry, s') \<Rightarrow> volumes_info_loop P parse_filetime d n s' (volumes_info @ [entry]))"

definition decode_volumes_info ::
  "('t volumes_info_entry list \<Rightarrow> 't volumes_info_entry list) \<Rightarrow> raw_volumes_info_entry construct
     \<Rightarrow> (nat \<Rightarrow> 't) \<Rightarrow> ('t, 'x) file_info_scheme \<Rightarrow> bytestream
     \<Rightarrow> (error + 't volumes_info_entry list) \<times> bytestream" where
  "decode_volumes_info clean_value P parse_filetime file_info stream =
     (case volumes_info_loop P parse_filetime (SectionDOffset file_info)
             (SectionDEntriesCount file_info) stream [] of
        (Inl e, s') \<Rightarrow> (Inl e, s')
      | (Inr volumes_info, s') \<Rightarrow> (Inr (clean_value volumes_info), s'))"

definition parse_volumes_info ::
  "('t volumes_info_entry list \<Rightarrow> 't volumes_info_entry list) \<Rightarrow> ('r, 'z, 'fn, 'tc, 'ref) pfstructs
     \<Rightarrow> (nat \<Rightarrow> 't) \<Rightarrow> 'w header_scheme \<Rightarrow> ('t, 'x) file_info_scheme \<Rightarrow> bytestream
     \<Rightarrow> (error + 't volumes_info_entry list) \<times> bytestream" where
  "parse_volumes_info clean_value pfs parse_filetime header file_info stream =
     (let original_position = tell stream
      in finally_seek
           (let s0 = seek stream (SectionDOffset file_info);
                PrefetchVolumeInformation =
                  (if Version header = Label ''XP'' then PrefetchVolumeInformation17 pfs
                   else if Version header = Label ''SEVEN'' then PrefetchVolumeInformation23 pfs
                   else if Version header = Label ''EIGHT'' then PrefetchVolumeInformation26 pfs
                   else PrefetchVolumeInformation30 pfs)
            in decode_volumes_info clean_value PrefetchVolumeInformation parse_filetime
                 file_info s0)
           original_position)"

subsection \<open>\<^verbatim>\<open>_parse_filename_strings\<close>\<close>

fun filename_strings_loop ::
  "'fn construct \<Rightarrow> ('t, 'x) file_info_scheme \<Rightarrow> 'm list \<Rightarrow> bytestream \<Rightarrow> 'fn option list
     \<Rightarrow> (error + 'fn option list) \<times> bytestream" where
  "filename_strings_loop P file_info [] stream filename_strings = (Inr filename_strings, stream)"
| "filename_strings_loop P file_info (file_metric # rest) stream filename_strings =
     (if int (tell stream) - int (SectionCOffset file_info) \<le> int (SectionCLength file_info)
      then (case parse_stream P stream of
              (Inl e, s') \<Rightarrow> (Inl e, s')
            | (Inr v, s') \<Rightarrow>
                filename_strings_loop P file_info rest s' (filename_strings @ [Some v]))
      else filename_strings_loop P file_info rest stream (filename_strings @ [None]))"

definition parse_filename_strings ::
  "('fn option list \<Rightarrow> 'fn option list) \<Rightarrow> ('r, 'z, 'fn, 'tc, 'ref) pfstructs
     \<Rightarrow> ('t, 'x) file_info_scheme \<Rightarrow> 'm list \<Rightarrow> bytestream
     \<Rightarrow> (error + 'fn option list) \<times> bytestream" where
  "parse_filename_strings clean_value pfs file_info file_metrics stream =
     (let original_position = tell stream
      in finally_seek
           (case filename_strings_loop (PrefetchFileNameString pfs) file_info file_metrics
                   (seek stream (SectionCOffset file_info)) [] of
              (Inl e, s') \<Rightarrow> (Inl e, s')
            | (Inr filename_strings, s') \<Rightarrow> (Inr (clean_value filename_strings), s'))
           original_position)"

subsection \<open>\<^verbatim>\<open>_parse_trace_chains\<close>\<close>

fun trace_chains_loop ::
  "'tc construct \<Rightarrow> nat \<Rightarrow> bytestream \<Rightarrow> 'tc list \<Rightarrow> (error + 'tc list) \<times> bytestream" where
  "trace_chains_loop P 0 stream trace_chains = (Inr trace_chains, stream)"
| "trace_chains_loop P (Suc n) stream trace_chains =
     (case parse_stream P stream of
        (Inl e, s') \<Rightarrow> (Inl e, s')
      | (Inr v, s') \<Rightarrow> trace_chains_loop P n s' (trace_chains @ [v]))"

definition parse_trace_chains ::
  "('tc list \<Rightarrow> 'tc list) \<Rightarrow> ('r, 'z, 'fn, 'tc, 'ref) pfstructs \<Rightarrow> ('t, 'x) file_info_scheme
     \<Rightarrow> bytestream \<Rightarrow> (error + 'tc list) \<times> bytestream" where
  "parse_trace_chains clean_value pfs file_info stream =
     (let original_position = tell stream
      in finally_seek
           (case trace_chains_loop (PrefetchTraceChainEntry pfs) (SectionBEntriesCount file_info)
                   (seek stream (SectionBOffset file_info)) [] of
              (Inl e, s') \<Rightarrow> (Inl e, s')
            | (Inr trace_chains, s') \<Rightarrow> (Inr (clean_value trace_chains), s'))
           original_position)"

subsection \<open>\<^verbatim>\<open>_parse_file_metrics\<close>\<close>

text \<open>The body of the loop over \<^verbatim>\<open>range(SectionAEntriesCount)\<close>; nothing in it catches
  an exception. \<^verbatim>\<open>_clean_value\<close> is applied to the entry, to its file reference when the
  entry has one, and to the list.\<close>

definition file_metrics_step ::
  "(('r, 'z) file_metrics_entry_scheme \<Rightarrow> ('r, 'z) file_metrics_entry_scheme) \<Rightarrow> ('r \<Rightarrow> 'r)
     \<Rightarrow> ('r, 'z) file_metrics_entry_scheme construct \<Rightarrow> bytestream
     \<Rightarrow> (error + ('r, 'z) file_metrics_entry_scheme) \<times> bytestream" where
  "file_metrics_step clean_entry clean_reference P stream =
     (case parse_stream P stream of
        (Inl e, s') \<Rightarrow> (Inl e, s')
      | (Inr parsed, s') \<Rightarrow>
          (let file_metrics_entry = clean_entry parsed
           in (Inr (case FileReference file_metrics_entry of
                      None \<Rightarrow> file_metrics_entry
                    | Some reference \<Rightarrow>
                        file_metrics_entry\<lparr>FileReference := Some (clean_reference reference)\<rparr>),
               s')))"

fun file_metrics_loop ::
  "(('r, 'z) file_metrics_entry_scheme \<Rightarrow> ('r, 'z) file_metrics_entry_scheme) \<Rightarrow> ('r \<Rightarrow> 'r)
     \<Rightarrow> ('r, 'z) file_metrics_entry_scheme construct \<Rightarrow> nat \<Rightarrow> bytestream
     \<Rightarrow> ('r, 'z) file_metrics_entry_scheme list
     \<Rightarrow> (error + ('r, 'z) file_metrics_entry_scheme list) \<times> bytestream" where
  "file_metrics_loop clean_entry clean_reference P 0 stream file_metrics =
     (Inr file_metrics, stream)"
| "file_metrics_loop clean_entry clean_reference P (Suc n) stream file_metrics =
     (case file_metrics_step clean_entry clean_reference P stream of
        (Inl e, s') \<Rightarrow> (Inl e, s')
      | (Inr entry, s') \<Rightarrow>
          file_metrics_loop clean_entry clean_reference P n s' (file_metrics @ [entry]))"

definition decode_file_metrics ::
  "(('r, 'z) file_metrics_entry_scheme list \<Rightarrow> ('r, 'z) file_metrics_entry_scheme list)
     \<Rightarrow> (('r, 'z) file_metrics_entry_scheme \<Rightarrow> ('r, 'z) file_metrics_entry_scheme) \<Rightarrow> ('r \<Rightarrow> 'r)
     \<Rightarrow> ('r, 'z) file_metrics_entry_scheme construct \<Rightarrow> ('t, 'x) file_info_scheme \<Rightarrow> bytestream
     \<Rightarrow> (error + ('r, 'z) file_metrics_entry_scheme list) \<times> bytestream" where
  "decode_file_metrics clean_value clean_entry clean_reference P file_info stream =
     (case file_metrics_loop clean_entry clean_reference P (SectionAEntriesCount file_info)
             stream [] of
        (Inl e, s') \<Rightarrow> (Inl e, s')
      | (Inr file_metrics, s') \<Rightarrow> (Inr (clean_value file_metrics), s'))"

definition parse_file_metrics ::
  "(('r, 'z) file_metrics_entry_scheme list \<Rightarrow> ('r, 'z) file_metrics_entry_scheme list)
     \<Rightarrow> (('r, 'z) file_metrics_entry_scheme \<Rightarrow> ('r, 'z) file_metrics_entry_scheme) \<Rightarrow> ('r \<Rightarrow> 'r)
     \<Rightarrow> ('r, 'z, 'fn, 'tc, 'ref) pfstructs \<Rightarrow> 'w header_scheme \<Rightarrow> ('t, 'x) file_info_scheme
     \<Rightarrow> bytestream \<Rightarrow> (error + ('r, 'z) file_metrics_entry_scheme list) \<times> bytestream" where
  "parse_file_metrics clean_value clean_entry clean_reference pfs header file_info stream =
     (let original_position = tell stream
      in finally_seek
           (let s0 = seek stream (SectionAOffset file_info);
                PrefetchFileMetricsEntry =
                  (if Version header = Label ''XP'' then PrefetchFileMetricsEntry17 pfs
                   else if Version header = Label ''SEVEN'' then PrefetchFileMetricsEntry23 pfs
                   else if Version header = Label ''EIGHT'' then PrefetchFileMetricsEntry26 pfs
                   else PrefetchFileMetricsEntry30 pfs)
            in decode_file_metrics clean_value clean_entry clean_reference
                 PrefetchFileMetricsEntry file_info s0)
           original_position)"

subsection \<open>\<^verbatim>\<open>_parse_file_info\<close> and \<^verbatim>\<open>_parse_header\<close>\<close>

text \<open>Neither of the two records the position of the stream or seeks: they read from
  where the stream stands.\<close>

definition decode_file_info ::
  "('t file_info \<Rightarrow> 't file_info) \<Rightarrow> raw_file_info construct \<Rightarrow> (nat \<Rightarrow> 't) \<Rightarrow> bytestream
     \<Rightarrow> (error + 't file_info) \<times> bytestream" where
  "decode_file_info clean_value P parse_filetime stream =
     (case parse_stream P stream of
        (Inl e, s') \<Rightarrow> (Inl e, s')
      | (Inr file_info, s') \<Rightarrow>
          (Inr (clean_value
                  (raw_file_info.extend file_info
                     (file_info.fields (map parse_filetime (RawLastExecutionTime file_info))))),
           s'))"

definition parse_file_info ::
  "('t file_info \<Rightarrow> 't file_info) \<Rightarrow> ('r, 'z, 'fn, 'tc, 'ref) pfstructs \<Rightarrow> (nat \<Rightarrow> 't)
     \<Rightarrow> 'w header_scheme \<Rightarrow> bytestream \<Rightarrow> (error + 't file_info) \<times> bytestream" where
  "parse_file_info clean_value pfs parse_filetime header stream =
     (let PrefetchFileInformation =
            (if Version header = Label ''XP'' then PrefetchFileInformation17 pfs
             else if Version header = Label ''SEVEN'' then PrefetchFileInformation23 pfs
             else if Version header = Label ''EIGHT'' then PrefetchFileInformation26 pfs
             else PrefetchFileInformation30 pfs)
      in decode_file_info clean_value PrefetchFileInformation parse_filetime stream)"

definition parse_header ::
  "(header \<Rightarrow> header) \<Rightarrow> ('r, 'z, 'fn, 'tc, 'ref) pfstructs \<Rightarrow> bytestream
     \<Rightarrow> (error + header) \<times> bytestream" where
  "parse_header clean_value pfs stream =
     (case parse_stream (PrefetchHeader pfs) stream of
        (Inl e, s') \<Rightarrow> (Inl e, s')
      | (Inr header, s') \<Rightarrow>
          (case decode_utf8 (RawSignature header) of
             Inl e \<Rightarrow> (Inl e, s')
           | Inr signature \<Rightarrow>
               (Inr (clean_value
                       (raw_header.extend header
                          (header.fields signature
                             (split 0 (RawExecutableName header) ! 0)
                             (upper (replace ''0x'' [] (hex (RawPrefetchHash header))))))),
                s')))"

subsection \<open>\<^verbatim>\<open>__get_version\<close> and \<^verbatim>\<open>create_stream\<close>\<close>

text \<open>
  The parser object holds the source (a path; here the bytes of the file it names, which
  reading does not change) and the stream it keeps when asked to persist it.
  \<^verbatim>\<open>__get_version\<close> opens the file on a handle of its own, which it closes on return.
  \<^verbatim>\<open>DecompressWin10.decompress\<close> is a parameter.
\<close>

record prefetch =
  source :: "byte list"
  stream :: "bytestream option"

definition open_rb :: "byte list \<Rightarrow> bytestream" where
  "open_rb contents = \<lparr>data = contents, pos = 0\<rparr>"

definition get_version :: "('r, 'z, 'fn, 'tc, 'ref) pfstructs \<Rightarrow> prefetch \<Rightarrow> version option" where
  "get_version pfs self =
     (let pf = open_rb (source self)
      in case parse_stream (PrefetchVersion pfs) pf of
           (Inl e, pf') \<Rightarrow> None
         | (Inr version, pf') \<Rightarrow> Some version)"

text \<open>Modelled from the spec: \<^verbatim>\<open>FileParser.create_stream\<close>, the method of the parent
  class that \<^verbatim>\<open>create_stream\<close> falls back on, is not among the source files. The spec (4.2):
  when the probe succeeds, "the raw bytes are used directly as the Artifact's byte
  source".\<close>

definition FileParser_create_stream :: "bool \<Rightarrow> prefetch \<Rightarrow> (error + bytestream) \<times> prefetch" where
  "FileParser_create_stream persist self =
     (let s = open_rb (source self)
      in (Inr s, if persist then self\<lparr>stream := Some s\<rparr> else self))"

definition create_stream ::
  "(byte list \<Rightarrow> error + byte list) \<Rightarrow> ('r, 'z, 'fn, 'tc, 'ref) pfstructs \<Rightarrow> bool \<Rightarrow> prefetch
     \<Rightarrow> (error + bytestream) \<times> prefetch" where
  "create_stream decompress pfs persist self =
     (if get_version pfs self = None
      then (case decompress (source self) of
              Inl e \<Rightarrow> (Inl e, self)
            | Inr buffer \<Rightarrow>
                (let s = BytesIO buffer
                 in (Inr s, if persist then self\<lparr>stream := Some s\<rparr> else self)))
      else FileParser_create_stream persist self)"

section \<open>The header's hash in the words of the specification\<close>

text \<open>The number in base sixteen with the digits \<open>0\<close> to \<open>9\<close> and \<open>A\<close> to \<open>F\<close>, most
  significant digit first, no radix prefix.\<close>

definition uppercase_hex_digit :: "nat \<Rightarrow> char" where
  "uppercase_hex_digit d = ''0123456789ABCDEF'' ! d"

fun uppercase_hex_digits :: "nat \<Rightarrow> string" where
  "uppercase_hex_digits n =
     (if n < 16 then [uppercase_hex_digit n]
      else uppercase_hex_digits (n div 16) @ [uppercase_hex_digit (n mod 16)])"

declare uppercase_hex_digits.simps [simp del]

definition uppercase_hex :: "int \<Rightarrow> string" where
  "uppercase_hex n =
     (if n < 0 then ''-'' @ uppercase_hex_digits (nat (- n)) else uppercase_hex_digits (nat n))"

section \<open>The volumes as a function of the bytes\<close>



section \<open>A schema module for concrete inputs\<close>

text \<open>
  The theorems below hold for every schema module. The concrete inputs use this one:
  fixed-size records of little-endian fields, laid out in the manner of the prefetch
  format. A record is read whole; a short read raises.
\<close>

definition record_of :: "nat \<Rightarrow> (byte list \<Rightarrow> error + 'a) \<Rightarrow> 'a construct" where
  "record_of n f bs p =
     (case stream_read n bs p of
        (Inl e, q) \<Rightarrow> (Inl e, q)
      | (Inr got, q) \<Rightarrow> (f got, q))"

definition field :: "nat \<Rightarrow> nat \<Rightarrow> byte list \<Rightarrow> nat" where
  "field off n got = le_nat (take n (drop off got))"

definition version_of_tag :: "nat \<Rightarrow> error + version" where
  "version_of_tag n =
     (if n = 17 then Inr (Label ''XP'')
      else if n = 23 then Inr (Label ''SEVEN'')
      else if n = 26 then Inr (Label ''EIGHT'')
      else if n = 30 then Inr (Label ''TEN'')
      else Inl MappingError)"

text \<open>Modelled from the spec: the version tag that \<^verbatim>\<open>__get_version\<close> probes for is
  declared in the schema module, which is not among the source files. The spec (4.2): "a
  fixed-size format/version tag from the start of the stream"; the probe succeeds when the
  "tag matches one of the four known layout versions" and fails when the tag is
  "unrecognized or read fails".\<close>

definition sample_PrefetchVersion :: "version construct" where
  "sample_PrefetchVersion = record_of 4 (\<lambda>got. version_of_tag (le_nat got))"

text \<open>Modelled from the spec: the tag of a file is the little-endian number in its first
  four bytes; a file too short to hold one has none. The spec (4.2) has the probe succeed
  when the "tag matches one of the four known layout versions"; the four layouts the
  decoders choose between are numbered 17, 23, 26 and 30.\<close>

definition known_tag :: "byte list \<Rightarrow> bool" where
  "known_tag bytes = (4 \<le> length bytes \<and> le_nat (take 4 bytes) \<in> {17, 23, 26, 30})"

definition sample_PrefetchHeader :: "raw_header construct" where
  "sample_PrefetchHeader =
     record_of 84 (\<lambda>got.
       case version_of_tag (field 0 4 got) of
         Inl e \<Rightarrow> Inl e
       | Inr v \<Rightarrow>
           if take 4 (drop 4 got) \<noteq> [83, 67, 67, 65] then Inl ConstError
           else (case decode_utf16 (take 60 (drop 16 got)) of
                   Inl e \<Rightarrow> Inl e
                 | Inr name \<Rightarrow>
                     Inr \<lparr>Version = v, RawSignature = take 4 (drop 4 got),
                          RawExecutableName = rev (dropWhile (\<lambda>c. c = 0) (rev name)),
                          RawPrefetchHash = int (field 76 4 got)\<rparr>))"

text \<open>A file reference: the number of a record of the file system in six bytes and its
  sequence number in two.\<close>

record file_reference =
  SegmentNumber :: nat
  SequenceNumber :: nat

definition reference_of :: "byte list \<Rightarrow> file_reference" where
  "reference_of got = \<lparr>SegmentNumber = field 0 6 got, SequenceNumber = field 6 2 got\<rparr>"

definition sample_FileInformation :: "nat \<Rightarrow> nat \<Rightarrow> nat \<Rightarrow> raw_file_info construct" where
  "sample_FileInformation record_size times_offset times_count =
     record_of record_size (\<lambda>got.
       Inr \<lparr>SectionAOffset = field 0 4 got, SectionAEntriesCount = field 4 4 got,
            SectionBOffset = field 8 4 got, SectionBEntriesCount = field 12 4 got,
            SectionCOffset = field 16 4 got, SectionCLength = field 20 4 got,
            SectionDOffset = field 24 4 got, SectionDEntriesCount = field 28 4 got,
            RawLastExecutionTime =
              map (\<lambda>i. field (times_offset + 8 * i) 8 got) [0..<times_count]\<rparr>)"

definition sample_FileMetricsEntry17 :: "(file_reference, nat list) file_metrics_entry_scheme construct" where
  "sample_FileMetricsEntry17 =
     record_of 20 (\<lambda>got.
       Inr \<lparr>FileReference = None,
            \<dots> = [field 0 4 got, field 4 4 got, field 8 4 got, field 12 4 got, field 16 4 got]\<rparr>)"

definition sample_FileMetricsEntry23 :: "(file_reference, nat list) file_metrics_entry_scheme construct" where
  "sample_FileMetricsEntry23 =
     record_of 32 (\<lambda>got.
       Inr \<lparr>FileReference = Some (reference_of (take 8 (drop 24 got))),
            \<dots> = [field 0 4 got, field 4 4 got, field 8 4 got, field 12 4 got, field 16 4 got,
                  field 20 4 got]\<rparr>)"

definition sample_TraceChainEntry :: "nat list construct" where
  "sample_TraceChainEntry =
     record_of 12 (\<lambda>got. Inr [field 0 4 got, field 4 4 got, field 8 4 got])"

text \<open>Modelled from the spec: the filename string is declared in the schema module, which
  is not among the source files. The spec (3, 4.8): a "length-prefixed UTF-16" text run;
  the prefix is taken as the two-byte count of code units, as for a directory string.\<close>

definition sample_FileNameString :: "ustring construct" where
  "sample_FileNameString bs p =
     (case Int16ul bs p of
        (Inl e, q) \<Rightarrow> (Inl e, q)
      | (Inr n, q) \<Rightarrow> record_of (2 * n) decode_utf16 bs q)"

definition sample_VolumeInformation :: "nat \<Rightarrow> raw_volumes_info_entry construct" where
  "sample_VolumeInformation record_size =
     record_of record_size (\<lambda>got.
       Inr \<lparr>VolumeDevicePathOffset = field 0 4 got, VolumeDevicePathLength = field 4 4 got,
            RawVolumeCreateTime = field 8 8 got, SectionEOffset = field 20 4 got,
            SectionFOffset = field 28 4 got, SectionFStringsCount = field 32 4 got\<rparr>)"

definition sample_FileReferences :: "file_reference file_references construct" where
  "sample_FileReferences bs p =
     (case stream_read 8 bs p of
        (Inl e, q) \<Rightarrow> (Inl e, q)
      | (Inr got, q) \<Rightarrow>
          record_of (8 * field 4 4 got) (\<lambda>body.
            Inr \<lparr>ReferenceCount = field 4 4 got,
                 References =
                   map (\<lambda>i. reference_of (take 8 (drop (8 * i) body))) [0..<field 4 4 got]\<rparr>) bs q)"

definition sample_pfstructs :: "(file_reference, nat list, ustring, nat list, file_reference) pfstructs" where
  "sample_pfstructs =
     \<lparr>PrefetchVersion = sample_PrefetchVersion,
      PrefetchHeader = sample_PrefetchHeader,
      PrefetchFileInformation17 = sample_FileInformation 68 36 1,
      PrefetchFileInformation23 = sample_FileInformation 156 44 1,
      PrefetchFileInformation26 = sample_FileInformation 224 44 8,
      PrefetchFileInformation30 = sample_FileInformation 220 44 8,
      PrefetchFileMetricsEntry17 = sample_FileMetricsEntry17,
      PrefetchFileMetricsEntry23 = sample_FileMetricsEntry23,
      PrefetchFileMetricsEntry26 = sample_FileMetricsEntry23,
      PrefetchFileMetricsEntry30 = sample_FileMetricsEntry23,
      PrefetchTraceChainEntry = sample_TraceChainEntry,
      PrefetchFileNameString = sample_FileNameString,
      PrefetchVolumeInformation17 = sample_VolumeInformation 40,
      PrefetchVolumeInformation23 = sample_VolumeInformation 104,
      PrefetchVolumeInformation26 = sample_VolumeInformation 104,
      PrefetchVolumeInformation30 = sample_VolumeInformation 96,
      PrefetchFileReferences = sample_FileReferences\<rparr>"

text \<open>A timestamp decoder and a decompressor for the concrete inputs: seconds since 1970
  from the ticks of 100 nanoseconds since 1601, and a container of a four-byte signature,
  a four-byte size and the stored bytes.\<close>

definition sample_filetime :: "nat \<Rightarrow> int" where
  "sample_filetime ticks = (int ticks - 116444736000000000) div 10000000"

definition sample_decompress :: "byte list \<Rightarrow> error + byte list" where
  "sample_decompress raw =
     (if take 4 raw = [77, 65, 77, 4] \<and> length raw = 8 + field 4 4 raw
      then Inr (drop 8 raw) else Inl DecompressError)"

section \<open>Concrete inputs\<close>

text \<open>The sections a decoder depends on, with the fields that matter set.\<close>

definition example_file_info ::
  "nat \<Rightarrow> nat \<Rightarrow> nat \<Rightarrow> nat \<Rightarrow> nat \<Rightarrow> nat \<Rightarrow> int file_info" where
  "example_file_info a_offset a_count c_offset c_length d_offset d_count =
     \<lparr>SectionAOffset = a_offset, SectionAEntriesCount = a_count,
      SectionBOffset = 0, SectionBEntriesCount = 0,
      SectionCOffset = c_offset, SectionCLength = c_length,
      SectionDOffset = d_offset, SectionDEntriesCount = d_count,
      RawLastExecutionTime = [], LastExecutionTime = []\<rparr>"

definition example_volume :: "nat \<Rightarrow> nat \<Rightarrow> nat \<Rightarrow> int volumes_info_entry" where
  "example_volume e_offset f_offset f_count =
     \<lparr>VolumeDevicePathOffset = 0, VolumeDevicePathLength = 0, RawVolumeCreateTime = 0,
      SectionEOffset = e_offset, SectionFOffset = f_offset, SectionFStringsCount = f_count,
      VolumeCreateTime = 0, VolumeDevicePath = []\<rparr>"

definition example_header :: "version \<Rightarrow> header" where
  "example_header v =
     \<lparr>Version = v, RawSignature = [83, 67, 67, 65], RawExecutableName = [65],
      RawPrefetchHash = 10, Signature = [83, 67, 67, 65], ExecutableName = [65],
      PrefetchHash = ''A''\<rparr>"

text \<open>A table of one file reference; a metrics record of 32 bytes; a raw file that
  starts with the tag of version 17, a container of the same bytes, and a file too short
  for either.\<close>

definition references_table :: "byte list" where
  "references_table = [3, 0, 0, 0, 1, 0, 0, 0, 5, 0, 0, 0, 0, 0, 0, 0]"

definition metrics_record :: "byte list" where
  "metrics_record = [1, 0, 0, 0, 2, 0, 0, 0, 3, 0, 0, 0, 4, 0, 0, 0, 5, 0, 0, 0, 6, 0, 0, 0,
                     7, 0, 0, 0, 0, 0, 0, 0]"

definition raw_file :: "byte list" where
  "raw_file = [17, 0, 0, 0, 83, 67, 67, 65]"

definition compressed_file :: "byte list" where
  "compressed_file = [77, 65, 77, 4, 8, 0, 0, 0, 17, 0, 0, 0, 83, 67, 67, 65]"

definition broken_file :: "byte list" where
  "broken_file = [77, 65, 77]"

text \<open>A header of 84 bytes: the tag of version 17, the signature, the name \<open>A.EXE\<close>
  followed by a terminator and a stray character in a field of 60 bytes, and the hash
  \<open>0x1A2B3C\<close>.\<close>

definition header_bytes :: "byte list" where
  "header_bytes =
     [17, 0, 0, 0, 83, 67, 67, 65, 0, 0, 0, 0, 84, 0, 0, 0,
      65, 0, 46, 0, 69, 0, 88, 0, 69, 0, 0, 0, 90, 0] @ replicate 46 0 @
     [60, 43, 26, 0, 0, 0, 0, 0]"

text \<open>Three directory strings: \<open>A\<close>, an unpaired surrogate, \<open>B\<close>; each with its
  terminator.\<close>

definition directory_table :: "byte list" where
  "directory_table = [1, 0, 65, 0, 0, 0, 1, 0, 0, 216, 0, 0, 1, 0, 66, 0, 0, 0]"




text \<open>Two volume records of 40 bytes. The device path of the first, two characters at
  200, lies beyond the end of the bytes; the device path of the second has length zero.\<close>

definition volumes_unreadable_path :: "byte list" where
  "volumes_unreadable_path = [200, 0, 0, 0, 2, 0, 0, 0] @ replicate 72 0"

text \<open>A metrics record of 32 bytes followed by the first three bytes of another.\<close>

definition metrics_truncated :: "byte list" where
  "metrics_truncated = metrics_record @ [1, 2, 3]"

text \<open>A table of filename strings of six bytes, the string \<open>AB\<close>, and four bytes after
  it; two metrics entries.\<close>

definition filename_table :: "byte list" where
  "filename_table = [2, 0, 65, 0, 66, 0] @ [1, 0, 90, 0]"

definition two_metrics :: "(file_reference, nat list) file_metrics_entry_scheme list" where
  "two_metrics =
     [\<lparr>FileReference = Some \<lparr>SegmentNumber = 7, SequenceNumber = 0\<rparr>, \<dots> = [1, 2, 3, 0, 2, 6]\<rparr>,
      \<lparr>FileReference = Some \<lparr>SegmentNumber = 8, SequenceNumber = 0\<rparr>, \<dots> = [1, 2, 3, 6, 1, 6]\<rparr>]"

section \<open>Properties of the byte source and the library\<close>

lemma data_seek: "data (seek s off) = data s"
  by (simp add: seek_def)

lemma pos_seek: "pos (seek s off) = off"
  by (simp add: seek_def)

lemma seek_tell: "seek s (tell s) = s"
  by (simp add: seek_def tell_def)

lemma data_parse_stream: "data (snd (parse_stream c s)) = data s"
  by (simp add: parse_stream_def data_seek split: prod.splits)

lemma data_read: "data (snd (read s n)) = data s"
  by (simp add: read_def Let_def)

lemma seek_cong_data: "data s' = data s \<Longrightarrow> seek s' off = seek s off"
  by (simp add: seek_def)

lemma tell_finally_seek: "tell (snd (finally_seek r p)) = p"
  by (simp add: finally_seek_def tell_def pos_seek)

lemma finally_seek_restores: "data (snd r) = data s \<Longrightarrow> finally_seek r (tell s) = (fst r, s)"
  by (simp add: finally_seek_def seek_def tell_def)

section \<open>Properties of the string operations\<close>

lemma split_nonempty: "split sep s \<noteq> []"
  by (induction s) (auto split: list.splits)

lemma split_first: "split sep s ! 0 = takeWhile (\<lambda>c. c \<noteq> sep) s"
proof (induction s)
  case Nil
  then show ?case by simp
next
  case (Cons c cs)
  then show ?case
    using split_nonempty [of sep cs] by (cases "split sep cs") auto
qed

lemma less_16_cases:
  "d < 16 \<Longrightarrow> d = 0 \<or> d = 1 \<or> d = 2 \<or> d = 3 \<or> d = 4 \<or> d = 5 \<or> d = 6 \<or> d = 7 \<or> d = 8 \<or> d = 9
     \<or> d = 10 \<or> d = 11 \<or> d = 12 \<or> d = 13 \<or> d = 14 \<or> d = (15::nat)"
  by presburger

lemma upper_hex_digit:
  assumes "d < 16"
  shows "upper_char (hex_digit d) = uppercase_hex_digit d"
  using less_16_cases [OF assms]
  by (elim disjE) (simp_all add: upper_char_def hex_digit_def uppercase_hex_digit_def)

lemma hex_digit_not_x:
  assumes "d < 16"
  shows "hex_digit d \<noteq> CHR ''x''"
  using less_16_cases [OF assms]
  by (elim disjE) (simp_all add: hex_digit_def)

lemma upper_hex_digits: "upper (hex_digits n) = uppercase_hex_digits n"
proof (induction n rule: hex_digits.induct)
  case (1 n)
  show ?case
  proof (cases "n < 16")
    case True
    then show ?thesis
      by (subst hex_digits.simps, subst uppercase_hex_digits.simps)
         (simp add: upper_def upper_hex_digit)
  next
    case False
    then have "upper (hex_digits (n div 16)) = uppercase_hex_digits (n div 16)"
      using 1 by simp
    then show ?thesis
      using False
      by (subst hex_digits.simps, subst uppercase_hex_digits.simps)
         (simp add: upper_def upper_hex_digit)
  qed
qed

lemma hex_digits_no_x: "CHR ''x'' \<notin> set (hex_digits n)"
proof (induction n rule: hex_digits.induct)
  case (1 n)
  show ?case
  proof (cases "n < 16")
    case True
    then show ?thesis
      using hex_digit_not_x [of n] by (subst hex_digits.simps) auto
  next
    case False
    then show ?thesis
      using 1 hex_digit_not_x [of "n mod 16"] by (subst hex_digits.simps) auto
  qed
qed



lemma take_one_mem: "take (Suc 0) s = [x] \<Longrightarrow> x \<in> set s"
  by (cases s) auto

lemma replace_0x_absent: "CHR ''x'' \<notin> set s \<Longrightarrow> replace ''0x'' [] s = s"
  by (induction s) (auto dest: take_one_mem)

lemma replace_0x_hex:
  "replace ''0x'' [] (hex n) =
     (if n < 0 then ''-'' @ hex_digits (nat (- n)) else hex_digits (nat n))"
  by (simp add: hex_def replace_0x_absent [OF hex_digits_no_x])

lemma upper_replace_hex: "upper (replace ''0x'' [] (hex n)) = uppercase_hex n"
proof -
  have "upper_char CHR ''-'' = CHR ''-''"
    by (simp add: upper_char_def)
  then show ?thesis
    using upper_hex_digits [of "nat (- n)"] upper_hex_digits [of "nat n"]
    by (simp add: replace_0x_hex uppercase_hex_def upper_def)
qed

section \<open>The cursor after a decoder\<close>

lemma parse_header_stream:
  "snd (parse_header clean_value pfs s) = snd (parse_stream (PrefetchHeader pfs) s)"
  by (simp add: parse_header_def split: prod.splits sum.splits)

lemma decode_file_info_stream:
  "snd (decode_file_info clean_value P parse_filetime s) = snd (parse_stream P s)"
  by (simp add: decode_file_info_def split: prod.splits sum.splits)

text \<open>
  C4, as the code has it. Each of the six decoders that seek (directory strings, file
  references, volumes, filename strings, trace chains, file metrics) returns the stream
  with the cursor where it was at the call, whether it returns a value or raises. The
  decoders of the header and of the file information do not: they leave the cursor where
  the parse of their record left it.
\<close>

theorem seeking_decoders_restore_cursor:
  "tell (snd (parse_directory_strings c1 file_info volumes_info s)) = tell s \<and>
   tell (snd (parse_file_references c2 pfs file_info volumes_info s)) = tell s \<and>
   tell (snd (parse_volumes_info c3 pfs parse_filetime header file_info s)) = tell s \<and>
   tell (snd (parse_filename_strings c4 pfs file_info file_metrics s)) = tell s \<and>
   tell (snd (parse_trace_chains c5 pfs file_info s)) = tell s \<and>
   tell (snd (parse_file_metrics c6 ce cr pfs header file_info s)) = tell s \<and>
   snd (parse_header c7 pfs s) = snd (parse_stream (PrefetchHeader pfs) s) \<and>
   snd (decode_file_info c8 P parse_filetime s) = snd (parse_stream P s)"
  by (simp add: parse_directory_strings_def parse_file_references_def parse_volumes_info_def
      parse_filename_strings_def parse_trace_chains_def parse_file_metrics_def
      tell_finally_seek Let_def parse_header_stream decode_file_info_stream)

lemma length_header_bytes: "length header_bytes = 84"
  by (simp add: header_bytes_def)

lemma record_of_whole:
  "length bs = n \<Longrightarrow> record_of n f bs 0 = (f bs, n)"
  by (simp add: record_of_def stream_read_def)

lemma parse_stream_header_bytes:
  "snd (parse_stream sample_PrefetchHeader (BytesIO header_bytes)) = seek (BytesIO header_bytes) 84"
  by (simp add: parse_stream_def sample_PrefetchHeader_def BytesIO_def
      record_of_whole [OF length_header_bytes] split: prod.splits)

text \<open>C4 as stated fails for the decoder of the header: on a header of 84 bytes it leaves
  the cursor at 84, not at 0.\<close>

theorem header_decoder_moves_cursor:
  "tell (snd (parse_header (\<lambda>h. h) sample_pfstructs (BytesIO header_bytes))) \<noteq>
   tell (BytesIO header_bytes)"
proof -
  have "PrefetchHeader sample_pfstructs = sample_PrefetchHeader"
    by (simp add: sample_pfstructs_def)
  then have "snd (parse_header (\<lambda>h. h) sample_pfstructs (BytesIO header_bytes)) =
      seek (BytesIO header_bytes) 84"
    by (simp add: parse_header_stream parse_stream_header_bytes)
  then show ?thesis
    by (simp add: tell_def seek_def BytesIO_def)
qed

text \<open>The file references are decoded from a stream that stands at 5, and leave it at
  5; the header is decoded from a stream that stands at 0, and leaves it at 84.\<close>

theorem seeking_decoders_restore_cursor_witness:
  "tell (snd (parse_file_references (\<lambda>v. v) sample_pfstructs (example_file_info 0 0 0 0 0 2)
            [example_volume 100 0 0, example_volume 0 0 0]
            (seek (BytesIO references_table) 5))) = 5 \<and>
   tell (snd (parse_header (\<lambda>h. h) sample_pfstructs (BytesIO header_bytes))) = 84"
proof -
  note a = seeking_decoders_restore_cursor [where s = "seek (BytesIO references_table) 5"
      and pfs = sample_pfstructs and ?c2.0 = "\<lambda>v. v" and file_info = "example_file_info 0 0 0 0 0 2"
      and volumes_info = "[example_volume 100 0 0, example_volume 0 0 0]"]
  note b = seeking_decoders_restore_cursor [where s = "BytesIO header_bytes"
      and pfs = sample_pfstructs and ?c7.0 = "\<lambda>h. h"]
  have "tell (snd (parse_file_references (\<lambda>v. v) sample_pfstructs (example_file_info 0 0 0 0 0 2)
            [example_volume 100 0 0, example_volume 0 0 0]
            (seek (BytesIO references_table) 5))) = 5"
    using a [THEN conjunct2, THEN conjunct1] by (simp add: tell_def seek_def)
  moreover have "tell (snd (parse_header (\<lambda>h. h) sample_pfstructs (BytesIO header_bytes))) = 84"
    using b [THEN conjunct2, THEN conjunct2, THEN conjunct2, THEN conjunct2, THEN conjunct2,
        THEN conjunct2, THEN conjunct1] parse_stream_header_bytes
    by (simp add: tell_def seek_def sample_pfstructs_def)
  ultimately show ?thesis by simp
qed

section \<open>The byte source of a parse\<close>

lemma get_version_raises:
  "get_version pfs self = None \<longleftrightarrow>
     (\<exists>e. fst (PrefetchVersion pfs (source self) 0) = Inl e)"
  by (auto simp: get_version_def parse_stream_def open_rb_def Let_def
      split: prod.splits sum.splits)

lemma create_stream_by_probe:
  "(get_version pfs self = None \<longleftrightarrow>
      (\<exists>e. fst (parse_stream (PrefetchVersion pfs) (open_rb (source self))) = Inl e)) \<and>
   (get_version pfs self \<noteq> None \<longrightarrow>
      create_stream decompress pfs persist self = FileParser_create_stream persist self \<and>
      create_stream decompress pfs persist self =
        (Inr (open_rb (source self)),
         if persist then self\<lparr>stream := Some (open_rb (source self))\<rparr> else self)) \<and>
   (get_version pfs self = None \<longrightarrow>
      create_stream decompress pfs persist self =
        (case decompress (source self) of
           Inl e \<Rightarrow> (Inl e, self)
         | Inr buffer \<Rightarrow>
             (Inr (BytesIO buffer),
              if persist then self\<lparr>stream := Some (BytesIO buffer)\<rparr> else self))) \<and>
   source (snd (create_stream decompress pfs persist self)) = source self"
  by (auto simp: create_stream_def get_version_def FileParser_create_stream_def Let_def
      split: prod.splits sum.splits)

lemma create_stream_by_tag:
  assumes "\<forall>bytes. (\<exists>e. fst (PrefetchVersion pfs bytes 0) = Inl e) = (\<not> known_tag bytes)"
  shows "(known_tag (source self) \<longrightarrow>
         create_stream decompress pfs persist self = FileParser_create_stream persist self \<and>
         create_stream decompress pfs persist self =
           (Inr (open_rb (source self)),
            if persist then self\<lparr>stream := Some (open_rb (source self))\<rparr> else self)) \<and>
      (\<not> known_tag (source self) \<longrightarrow>
         create_stream decompress pfs persist self =
           (case decompress (source self) of
              Inl e \<Rightarrow> (Inl e, self)
            | Inr buffer \<Rightarrow>
                (Inr (BytesIO buffer),
                 if persist then self\<lparr>stream := Some (BytesIO buffer)\<rparr> else self)))"
proof (cases "known_tag (source self)")
  case True
  then have "get_version pfs self \<noteq> None"
    using assms get_version_raises [of pfs self] by simp
  then show ?thesis
    using True create_stream_by_probe [of pfs self decompress persist, THEN conjunct2,
        THEN conjunct1]
    by blast
next
  case False
  then have "get_version pfs self = None"
    using assms get_version_raises [of pfs self] by simp
  then show ?thesis
    using False create_stream_by_probe [of pfs self decompress persist, THEN conjunct2,
        THEN conjunct2, THEN conjunct1]
    by blast
qed

text \<open>
  C5. The probe fails exactly when parsing the version tag at the start of the file
  raises. When it succeeds, \<^verbatim>\<open>create_stream\<close> is \<^verbatim>\<open>create_stream\<close> of the parent class and
  the decompressor is not called: the stream is the raw file from its start. When it
  fails, the decompressor is given the source, and the stream is its output from the
  start; when the decompressor raises, \<^verbatim>\<open>create_stream\<close> raises the same and keeps no
  stream. The probe reads a handle of its own: the source is the same after the call,
  whatever the outcome. So, with a schema module whose version parser raises exactly on
  the files that have no known tag (too short to hold a tag, or holding one that is none
  of the four): a file whose tag is known is its own byte source, from its start, and
  any other file is handed unchanged to the decompressor, whose output is the byte source
  and whose failure is the failure of \<^verbatim>\<open>create_stream\<close>.
\<close>

theorem create_stream_probe_then_fallback:
  "(get_version pfs self = None \<longleftrightarrow>
      (\<exists>e. fst (parse_stream (PrefetchVersion pfs) (open_rb (source self))) = Inl e)) \<and>
   (get_version pfs self \<noteq> None \<longrightarrow>
      create_stream decompress pfs persist self = FileParser_create_stream persist self \<and>
      create_stream decompress pfs persist self =
        (Inr (open_rb (source self)),
         if persist then self\<lparr>stream := Some (open_rb (source self))\<rparr> else self)) \<and>
   (get_version pfs self = None \<longrightarrow>
      create_stream decompress pfs persist self =
        (case decompress (source self) of
           Inl e \<Rightarrow> (Inl e, self)
         | Inr buffer \<Rightarrow>
             (Inr (BytesIO buffer),
              if persist then self\<lparr>stream := Some (BytesIO buffer)\<rparr> else self))) \<and>
   source (snd (create_stream decompress pfs persist self)) = source self \<and>
   ((\<forall>bytes. (\<exists>e. fst (PrefetchVersion pfs bytes 0) = Inl e) = (\<not> known_tag bytes)) \<longrightarrow>
      (known_tag (source self) \<longrightarrow>
         create_stream decompress pfs persist self = FileParser_create_stream persist self \<and>
         create_stream decompress pfs persist self =
           (Inr (open_rb (source self)),
            if persist then self\<lparr>stream := Some (open_rb (source self))\<rparr> else self)) \<and>
      (\<not> known_tag (source self) \<longrightarrow>
         create_stream decompress pfs persist self =
           (case decompress (source self) of
              Inl e \<Rightarrow> (Inl e, self)
            | Inr buffer \<Rightarrow>
                (Inr (BytesIO buffer),
                 if persist then self\<lparr>stream := Some (BytesIO buffer)\<rparr> else self))))"
proof -
  note general = create_stream_by_probe [of pfs self decompress persist]
  have tag: "(\<forall>bytes. (\<exists>e. fst (PrefetchVersion pfs bytes 0) = Inl e) = (\<not> known_tag bytes)) \<longrightarrow>
      (known_tag (source self) \<longrightarrow>
         create_stream decompress pfs persist self = FileParser_create_stream persist self \<and>
         create_stream decompress pfs persist self =
           (Inr (open_rb (source self)),
            if persist then self\<lparr>stream := Some (open_rb (source self))\<rparr> else self)) \<and>
      (\<not> known_tag (source self) \<longrightarrow>
         create_stream decompress pfs persist self =
           (case decompress (source self) of
              Inl e \<Rightarrow> (Inl e, self)
            | Inr buffer \<Rightarrow>
                (Inr (BytesIO buffer),
                 if persist then self\<lparr>stream := Some (BytesIO buffer)\<rparr> else self)))"
    by (rule impI) (rule create_stream_by_tag)
  show ?thesis
    by (rule conjI [OF general [THEN conjunct1]
          conjI [OF general [THEN conjunct2, THEN conjunct1]
            conjI [OF general [THEN conjunct2, THEN conjunct2, THEN conjunct1]
              conjI [OF general [THEN conjunct2, THEN conjunct2, THEN conjunct2] tag]]]])
qed

lemma sample_PrefetchVersion_raises:
  "(\<exists>e. fst (sample_PrefetchVersion bytes 0) = Inl e) = (\<not> known_tag bytes)"
  by (auto simp: sample_PrefetchVersion_def record_of_def stream_read_def version_of_tag_def
      known_tag_def Let_def min_def split: if_splits)

lemma known_tag_files:
  "known_tag raw_file" "\<not> known_tag compressed_file" "\<not> known_tag broken_file"
  by (simp_all add: known_tag_def raw_file_def compressed_file_def broken_file_def)

lemma decompress_compressed_file:
  "sample_decompress compressed_file = Inr [17, 0, 0, 0, 83, 67, 67, 65]"
  by (simp add: sample_decompress_def compressed_file_def field_def)

lemma decompress_broken_file: "sample_decompress broken_file = Inl DecompressError"
  by (simp add: sample_decompress_def broken_file_def field_def)

text \<open>The version parser of the schema module above raises exactly on the files with no
  known tag. With it, a raw file is its own byte source; a container is replaced by what
  it holds; a file that is neither makes \<^verbatim>\<open>create_stream\<close> raise.\<close>

theorem create_stream_probe_then_fallback_witness:
  "create_stream sample_decompress sample_pfstructs True \<lparr>source = raw_file, stream = None\<rparr> =
     (Inr (open_rb raw_file), \<lparr>source = raw_file, stream = Some (open_rb raw_file)\<rparr>) \<and>
   create_stream sample_decompress sample_pfstructs True
       \<lparr>source = compressed_file, stream = None\<rparr> =
     (Inr (BytesIO [17, 0, 0, 0, 83, 67, 67, 65]),
      \<lparr>source = compressed_file, stream = Some (BytesIO [17, 0, 0, 0, 83, 67, 67, 65])\<rparr>) \<and>
   create_stream sample_decompress sample_pfstructs True \<lparr>source = broken_file, stream = None\<rparr> =
     (Inl DecompressError, \<lparr>source = broken_file, stream = None\<rparr>)"
proof -
  have contract: "\<forall>bytes. (\<exists>e. fst (PrefetchVersion sample_pfstructs bytes 0) = Inl e) =
      (\<not> known_tag bytes)"
    using sample_PrefetchVersion_raises by (simp add: sample_pfstructs_def)
  note raw = create_stream_probe_then_fallback [of sample_pfstructs
      "\<lparr>source = raw_file, stream = None\<rparr>" sample_decompress True,
      THEN conjunct2, THEN conjunct2, THEN conjunct2, THEN conjunct2, THEN mp, OF contract]
  note compressed = create_stream_probe_then_fallback [of sample_pfstructs
      "\<lparr>source = compressed_file, stream = None\<rparr>" sample_decompress True,
      THEN conjunct2, THEN conjunct2, THEN conjunct2, THEN conjunct2, THEN mp, OF contract]
  note broken = create_stream_probe_then_fallback [of sample_pfstructs
      "\<lparr>source = broken_file, stream = None\<rparr>" sample_decompress True,
      THEN conjunct2, THEN conjunct2, THEN conjunct2, THEN conjunct2, THEN mp, OF contract]
  have 1: "create_stream sample_decompress sample_pfstructs True
      \<lparr>source = raw_file, stream = None\<rparr> =
      (Inr (open_rb raw_file), \<lparr>source = raw_file, stream = Some (open_rb raw_file)\<rparr>)"
    using raw [THEN conjunct1] known_tag_files(1)
    by (simp add: FileParser_create_stream_def Let_def)
  have 2: "create_stream sample_decompress sample_pfstructs True
      \<lparr>source = compressed_file, stream = None\<rparr> =
      (Inr (BytesIO [17, 0, 0, 0, 83, 67, 67, 65]),
       \<lparr>source = compressed_file, stream = Some (BytesIO [17, 0, 0, 0, 83, 67, 67, 65])\<rparr>)"
    using compressed [THEN conjunct2] known_tag_files(2)
    by (simp add: decompress_compressed_file)
  have 3: "create_stream sample_decompress sample_pfstructs True
      \<lparr>source = broken_file, stream = None\<rparr> =
      (Inl DecompressError, \<lparr>source = broken_file, stream = None\<rparr>)"
    using broken [THEN conjunct2] known_tag_files(3)
    by (simp add: decompress_broken_file)
  show ?thesis
    using 1 2 3 by simp
qed

section \<open>The file reference tables\<close>

lemma data_file_refs_entry: "data (snd (file_refs_entry P d v s)) = data s"
proof -
  have "data (snd (parse_stream P (seek s (d + SectionEOffset v)))) = data s"
    by (simp add: data_parse_stream data_seek)
  then show ?thesis
    by (auto simp: file_refs_entry_def split: prod.splits sum.splits)
qed

lemma file_refs_entry_data_only:
  "data s' = data s \<Longrightarrow> fst (file_refs_entry P d v s') = fst (file_refs_entry P d v s)"
  by (simp add: file_refs_entry_def seek_cong_data [of s' s])

lemma file_references_loop_map:
  "data s' = data s \<Longrightarrow>
   fst (file_references_loop P d vs s' acc) = acc @ map (\<lambda>v. fst (file_refs_entry P d v s)) vs \<and>
   data (snd (file_references_loop P d vs s' acc)) = data s"
proof (induction vs arbitrary: s' acc)
  case Nil
  then show ?case by simp
next
  case (Cons v vs)
  obtain r s1 where step: "file_refs_entry P d v s' = (r, s1)"
    by (cases "file_refs_entry P d v s'")
  have d1: "data s1 = data s"
    using data_file_refs_entry [of P d v s'] step Cons.prems by simp
  have r: "r = fst (file_refs_entry P d v s)"
    using file_refs_entry_data_only [OF Cons.prems, of P d v] step by simp
  show ?case
    using Cons.IH [OF d1, of "acc @ [r]"] step r by simp
qed

text \<open>
  C8. The file reference decoder returns one entry for each volume, in the order of the
  volumes: the table parsed at \<open>SectionDOffset + SectionEOffset\<close> of that volume, or
  \<open>None\<close> when parsing that table raises. Every entry is decided by the bytes and by its
  own volume alone, so a table that fails leaves the tables of the other volumes as they
  are; the decoder itself never raises and returns the stream as it received it.
\<close>

theorem file_references_tables_independent:
  "parse_file_references clean_value pfs file_info volumes_info s =
     (Inr (clean_value
             (map (\<lambda>v. case parse_stream (PrefetchFileReferences pfs)
                               (seek s (SectionDOffset file_info + SectionEOffset v)) of
                          (Inl e, s') \<Rightarrow> None
                        | (Inr entry, s') \<Rightarrow>
                            Some (entry\<lparr>References := map Container (References entry)\<rparr>))
                volumes_info)),
      s)"
proof -
  let ?P = "PrefetchFileReferences pfs" and ?d = "SectionDOffset file_info"
  let ?loop = "file_references_loop ?P ?d volumes_info s []"
  have loop: "fst ?loop = map (\<lambda>v. fst (file_refs_entry ?P ?d v s)) volumes_info"
    and dat: "data (snd ?loop) = data s"
    using file_references_loop_map [of s s ?P ?d volumes_info "[]"] by simp_all
  have entry: "fst (file_refs_entry ?P ?d v s) =
      (case parse_stream ?P (seek s (?d + SectionEOffset v)) of
         (Inl e, s') \<Rightarrow> None
       | (Inr entry, s') \<Rightarrow> Some (entry\<lparr>References := map Container (References entry)\<rparr>))" for v
    by (simp add: file_refs_entry_def split: prod.splits sum.splits)
  have "parse_file_references clean_value pfs file_info volumes_info s =
      finally_seek (Inr (clean_value (fst ?loop)), snd ?loop) (tell s)"
    by (simp add: parse_file_references_def Let_def split: prod.splits)
  also have "\<dots> = (Inr (clean_value (fst ?loop)), s)"
    using finally_seek_restores [of "(Inr (clean_value (fst ?loop)), snd ?loop)" s] dat by simp
  finally show ?thesis
    by (simp add: loop entry)
qed

lemma parse_references_table:
  "parse_stream sample_FileReferences (seek (BytesIO references_table) 0) =
     (Inr \<lparr>ReferenceCount = 1, References = [\<lparr>SegmentNumber = 5, SequenceNumber = 0\<rparr>]\<rparr>, seek (BytesIO references_table) 16)"
  by (simp add: parse_stream_def sample_FileReferences_def stream_read_def record_of_def
      reference_of_def field_def seek_def BytesIO_def references_table_def)

lemma parse_references_table_beyond:
  "parse_stream sample_FileReferences (seek (BytesIO references_table) 100) =
     (Inl StreamError, seek (BytesIO references_table) 100)"
  by (simp add: parse_stream_def sample_FileReferences_def stream_read_def record_of_def
      reference_of_def field_def seek_def BytesIO_def references_table_def)

text \<open>Two volumes: the table of the first lies beyond the end of the bytes, the table
  of the second is read.\<close>

theorem file_references_tables_independent_witness:
  "parse_file_references (\<lambda>v. v) sample_pfstructs (example_file_info 0 0 0 0 0 2)
     [example_volume 100 0 0, example_volume 0 0 0] (BytesIO references_table) =
   (Inr [None, Some \<lparr>ReferenceCount = 1, References = [\<lparr>SegmentNumber = 5, SequenceNumber = 0\<rparr>]\<rparr>], BytesIO references_table)"
  by (subst file_references_tables_independent)
     (simp add: example_file_info_def example_volume_def sample_pfstructs_def
       parse_references_table parse_references_table_beyond Container_def)

section \<open>The name and the hash of the header\<close>

text \<open>
  C6. The decoder of the header gives \<^verbatim>\<open>_clean_value\<close> the parsed record with three more
  fields: the signature decoded, the raw executable name cut before its first null
  character (the whole name when it has none), and the raw hash in uppercase hexadecimal
  digits without a radix prefix. It raises only when the record fails to parse or the
  signature is not UTF-8.
\<close>

theorem header_name_and_hash:
  "parse_header clean_value pfs s =
     (case parse_stream (PrefetchHeader pfs) s of
        (Inl e, s') \<Rightarrow> (Inl e, s')
      | (Inr raw, s') \<Rightarrow>
          (case decode_utf8 (RawSignature raw) of
             Inl e \<Rightarrow> (Inl e, s')
           | Inr signature \<Rightarrow>
               (Inr (clean_value
                       \<lparr>Version = Version raw, RawSignature = RawSignature raw,
                        RawExecutableName = RawExecutableName raw,
                        RawPrefetchHash = RawPrefetchHash raw,
                        Signature = signature,
                        ExecutableName = takeWhile (\<lambda>c. c \<noteq> 0) (RawExecutableName raw),
                        PrefetchHash = uppercase_hex (RawPrefetchHash raw)\<rparr>),
                s')))"
  by (simp add: parse_header_def split_first upper_replace_hex raw_header.defs header.defs
      split: prod.splits sum.splits)

lemma utf16_units_zeros: "utf16_units True (replicate (2 * n) 0) = Some (replicate n 0)"
  by (induction n) simp_all

lemma utf16_points_zeros: "utf16_points (replicate n 0) = Some (replicate n 0)"
  by (induction n) simp_all

lemma dropWhile_zeros:
  "dropWhile (\<lambda>c. c = 0) (replicate n 0 @ xs) = dropWhile (\<lambda>c. c = 0) xs"
  by (induction n) simp_all

lemma header_bytes_fields:
  "field 0 4 header_bytes = 17" "field 76 4 header_bytes = 1715004"
  "take 4 (drop 4 header_bytes) = [83, 67, 67, 65]"
  by (simp_all add: field_def header_bytes_def)

lemma decode_name_field:
  "decode_utf16 (take 60 (drop 16 header_bytes)) =
     Inr ([65, 46, 69, 88, 69, 0, 90] @ replicate 23 0)"
  using utf16_units_zeros [of 23] utf16_points_zeros [of 23]
  by (simp add: decode_utf16_def header_bytes_def)

lemma parse_header_bytes:
  "parse_stream sample_PrefetchHeader (BytesIO header_bytes) =
     (Inr \<lparr>Version = Label ''XP'', RawSignature = [83, 67, 67, 65],
           RawExecutableName = [65, 46, 69, 88, 69, 0, 90], RawPrefetchHash = 1715004\<rparr>,
      seek (BytesIO header_bytes) 84)"
  by (simp add: parse_stream_def sample_PrefetchHeader_def BytesIO_def
      record_of_whole [OF length_header_bytes] header_bytes_fields decode_name_field
      dropWhile_zeros version_of_tag_def)

lemma uppercase_hex_example: "uppercase_hex 1715004 = ''1A2B3C''"
  by (simp add: uppercase_hex_def uppercase_hex_digit_def
      uppercase_hex_digits.simps [of 1715004] uppercase_hex_digits.simps [of 107187]
      uppercase_hex_digits.simps [of 6699] uppercase_hex_digits.simps [of 418]
      uppercase_hex_digits.simps [of 26] uppercase_hex_digits.simps [of "Suc 0"])

lemma decode_signature: "decode_utf8 [83, 67, 67, 65] = Inr [83, 67, 67, 65]"
  by (simp add: decode_utf8_def)

text \<open>The header of 84 bytes with the name \<open>A.EXE\<close>, a terminator and a stray \<open>Z\<close>, and
  the hash \<open>0x1A2B3C\<close>: the name is \<open>A.EXE\<close> and the hash is \<open>1A2B3C\<close>.\<close>

theorem header_name_and_hash_witness:
  "parse_header (\<lambda>h. h) sample_pfstructs (BytesIO header_bytes) =
     (Inr \<lparr>Version = Label ''XP'', RawSignature = [83, 67, 67, 65],
           RawExecutableName = [65, 46, 69, 88, 69, 0, 90], RawPrefetchHash = 1715004,
           Signature = [83, 67, 67, 65], ExecutableName = [65, 46, 69, 88, 69],
           PrefetchHash = ''1A2B3C''\<rparr>,
      seek (BytesIO header_bytes) 84)"
  by (subst header_name_and_hash)
     (simp add: sample_pfstructs_def parse_header_bytes decode_signature uppercase_hex_example)

section \<open>The directory strings\<close>

lemma data_directory_string: "data (snd (directory_string st)) = data st"
proof -
  obtain r s1 where p: "parse_stream Int16ul st = (r, s1)"
    by (cases "parse_stream Int16ul st")
  have d1: "data s1 = data st"
    using data_parse_stream [of Int16ul st] p by simp
  show ?thesis
  proof (cases r)
    case (Inl e)
    then show ?thesis using p d1 by (simp add: directory_string_def)
  next
    case (Inr n)
    obtain bs s2 where rd: "read s1 (n * 2 + 2) = (bs, s2)"
      by (cases "read s1 (n * 2 + 2)")
    have "data s2 = data st"
      using data_read [of s1 "n * 2 + 2"] rd d1 by simp
    then show ?thesis
      using p Inr rd by (simp add: directory_string_def split: sum.splits)
  qed
qed

lemma data_directory_string_iter:
  "data (((\<lambda>st. snd (directory_string st)) ^^ i) st) = data st"
  by (induction i) (simp_all add: data_directory_string)

lemma directory_strings_entry_funpow:
  assumes f: "\<And>st. snd (directory_string st) = f st"
  shows "directory_strings_entry n st entry =
     (entry @ map (\<lambda>i. fst (directory_string ((f ^^ i) st))) [0..<n], (f ^^ n) st)"
proof (induction n arbitrary: st entry)
  case 0
  then show ?case by simp
next
  case (Suc n)
  obtain v s1 where d: "directory_string st = (v, s1)"
    by (cases "directory_string st")
  have s1: "s1 = f st"
    using f [of st] d by simp
  have "map (\<lambda>i. fst (directory_string ((f ^^ i) st))) [0..<Suc n] =
      fst (directory_string st) # map (\<lambda>i. fst (directory_string ((f ^^ Suc i) st))) [0..<n]"
    by (simp add: upt_conv_Cons map_Suc_upt [symmetric] del: upt_Suc funpow.simps)
  also have "\<dots> = v # map (\<lambda>i. fst (directory_string ((f ^^ i) s1))) [0..<n]"
    using d by (simp add: s1 funpow_swap1)
  finally have shift: "map (\<lambda>i. fst (directory_string ((f ^^ i) st))) [0..<Suc n] =
      v # map (\<lambda>i. fst (directory_string ((f ^^ i) s1))) [0..<n]" .
  have "(f ^^ Suc n) st = (f ^^ n) s1"
    by (simp add: s1 funpow_swap1)
  then show ?case
    using Suc.IH [of s1 "entry @ [v]"] d shift by (simp del: upt_Suc funpow.simps)
qed

lemma directory_strings_entry_iter:
  "directory_strings_entry n st entry =
     (entry @ map (\<lambda>i. fst (directory_string (((\<lambda>st. snd (directory_string st)) ^^ i) st))) [0..<n],
      ((\<lambda>st. snd (directory_string st)) ^^ n) st)"
  by (rule directory_strings_entry_funpow) simp

lemma directory_strings_loop_map:
  "data s' = data s \<Longrightarrow>
   fst (directory_strings_loop d vs s' acc) =
     acc @ map (\<lambda>v. map (\<lambda>i. fst (directory_string
                 (((\<lambda>st. snd (directory_string st)) ^^ i) (seek s (d + SectionFOffset v)))))
               [0..<SectionFStringsCount v]) vs \<and>
   data (snd (directory_strings_loop d vs s' acc)) = data s"
proof (induction vs arbitrary: s' acc)
  case Nil
  then show ?case by simp
next
  case (Cons v vs)
  let ?step = "\<lambda>st. snd (directory_string st)"
  let ?s0 = "seek s (d + SectionFOffset v)"
  have s0: "seek s' (d + SectionFOffset v) = ?s0"
    using Cons.prems by (rule seek_cong_data)
  have d1: "data ((?step ^^ SectionFStringsCount v) ?s0) = data s"
    by (simp add: data_directory_string_iter data_seek)
  show ?case
    using Cons.IH [OF d1] by (simp add: s0 directory_strings_entry_iter)
qed


text \<open>
  C7. The decoder of the directory strings returns one list for each volume, in the order
  of the volumes, of exactly \<open>SectionFStringsCount\<close> entries, read one after the other
  from \<open>SectionDOffset + SectionFOffset\<close> of that volume: entry \<open>i\<close> is what decoding one
  string gives at the cursor that the \<open>i\<close> strings before it left, and that cursor moves
  on whether a string was decoded or not. One string is a length of two bytes, then
  \<open>length * 2 + 2\<close> bytes (fewer at the end of the bytes) decoded as UTF-16 and stripped of
  null characters at both ends; it is \<open>None\<close> when the length cannot be read or the bytes
  are not UTF-16. The decoder itself never raises and returns the stream as it received
  it.
\<close>

theorem directory_strings_failures_confined:
  "parse_directory_strings clean_value file_info volumes_info s =
     (Inr (clean_value
             (map (\<lambda>v. map (\<lambda>i. fst (directory_string
                              (((\<lambda>st. snd (directory_string st)) ^^ i)
                                 (seek s (SectionDOffset file_info + SectionFOffset v)))))
                         [0..<SectionFStringsCount v])
                volumes_info)),
      s) \<and>
   directory_string st =
     (let prefix = take 2 (drop (pos st) (data st))
      in if length prefix \<noteq> 2 then (None, seek st (pos st + length prefix))
         else (let bs = take (le_nat prefix * 2 + 2) (drop (pos st + 2) (data st))
               in (case decode_utf16 bs of Inl e \<Rightarrow> None | Inr text \<Rightarrow> Some (strip 0 text),
                   seek st (pos st + 2 + length bs))))"
proof
  let ?loop = "directory_strings_loop (SectionDOffset file_info) volumes_info s []"
  have dat: "data (snd ?loop) = data s"
    using directory_strings_loop_map [of s s "SectionDOffset file_info" volumes_info "[]"]
    by simp
  have "parse_directory_strings clean_value file_info volumes_info s =
      finally_seek (Inr (clean_value (fst ?loop)), snd ?loop) (tell s)"
    by (simp add: parse_directory_strings_def Let_def split: prod.splits)
  also have "\<dots> = (Inr (clean_value (fst ?loop)), s)"
    using finally_seek_restores [of "(Inr (clean_value (fst ?loop)), snd ?loop)" s] dat by simp
  finally show "parse_directory_strings clean_value file_info volumes_info s =
     (Inr (clean_value
             (map (\<lambda>v. map (\<lambda>i. fst (directory_string
                              (((\<lambda>st. snd (directory_string st)) ^^ i)
                                 (seek s (SectionDOffset file_info + SectionFOffset v)))))
                         [0..<SectionFStringsCount v])
                volumes_info)),
      s)"
    using directory_strings_loop_map [of s s "SectionDOffset file_info" volumes_info "[]"]
    by simp
next
  show "directory_string st =
     (let prefix = take 2 (drop (pos st) (data st))
      in if length prefix \<noteq> 2 then (None, seek st (pos st + length prefix))
         else (let bs = take (le_nat prefix * 2 + 2) (drop (pos st + 2) (data st))
               in (case decode_utf16 bs of Inl e \<Rightarrow> None | Inr text \<Rightarrow> Some (strip 0 text),
                   seek st (pos st + 2 + length bs))))"
    by (auto simp: directory_string_def parse_stream_def Int16ul_def IntNul_def stream_read_def
        read_def seek_def Let_def split: sum.splits)
qed

lemma directory_string_at_0:
  "directory_string (seek (BytesIO directory_table) 0) =
     (Some [65], seek (BytesIO directory_table) 6)"
  by (simp add: directory_string_def parse_stream_def Int16ul_def IntNul_def stream_read_def
      read_def seek_def BytesIO_def directory_table_def decode_utf16_def strip_def)

lemma directory_string_at_6:
  "directory_string (seek (BytesIO directory_table) 6) =
     (None, seek (BytesIO directory_table) 12)"
  by (simp add: directory_string_def parse_stream_def Int16ul_def IntNul_def stream_read_def
      read_def seek_def BytesIO_def directory_table_def decode_utf16_def strip_def)

lemma directory_string_at_12:
  "directory_string (seek (BytesIO directory_table) 12) =
     (Some [66], seek (BytesIO directory_table) 18)"
  by (simp add: directory_string_def parse_stream_def Int16ul_def IntNul_def stream_read_def
      read_def seek_def BytesIO_def directory_table_def decode_utf16_def strip_def)

lemma upt_0_3: "[0..<3] = [0, 1, 2]"
  by (simp add: numeral_3_eq_3 upt_Suc_append)

lemma funpow_2: "(f ^^ 2) x = f (f x)"
  by (simp add: numeral_2_eq_2)

text \<open>Two volumes. The second of the three strings of the first volume is an unpaired
  surrogate: it alone is \<open>None\<close>, the third string and the string of the second volume
  are decoded.\<close>

theorem directory_strings_failures_confined_witness:
  "parse_directory_strings (\<lambda>v. v) (example_file_info 0 0 0 0 0 2)
     [example_volume 0 0 3, example_volume 0 12 1] (BytesIO directory_table) =
   (Inr [[Some [65], None, Some [66]], [Some [66]]], BytesIO directory_table)"
  by (subst directory_strings_failures_confined [THEN conjunct1])
     (simp add: example_file_info_def example_volume_def upt_0_3 funpow_2
       directory_string_at_0 directory_string_at_6 directory_string_at_12)

section \<open>The entries of the volumes\<close>



lemma parse_PaddedString:
  "parse (PaddedString n) xs =
     (if length xs < n then Inl StreamError
      else decode_utf8 (rev (dropWhile (\<lambda>b. b = 0) (rev (take n xs)))))"
  by (auto simp: parse_def PaddedString_def parse_stream_def BytesIO_def stream_read_def
      split: sum.splits)






lemma le_nat_zeros: "le_nat (replicate n 0) = 0"
  by (induction n) simp_all


















section \<open>A device path that fails to decode\<close>

lemma volumes_info_loop_add:
  "volumes_info_loop P f d (n + k) s acc =
     (case volumes_info_loop P f d n s acc of
        (Inl e, s') \<Rightarrow> (Inl e, s')
      | (Inr entries, s') \<Rightarrow> volumes_info_loop P f d k s' entries)"
  by (induction n arbitrary: s acc) (auto split: prod.splits sum.splits)

lemma volumes_info_step_path_failure:
  assumes "parse_stream P s0 = (Inr raw, s1)"
    and "parse (PaddedString (VolumeDevicePathLength raw))
           (replace [0] []
              (fst (read (seek s1 (d + VolumeDevicePathOffset raw))
                      (VolumeDevicePathLength raw * 2)))) = Inl e"
  shows "fst (volumes_info_step P f d s0) = Inl e"
  using assms by (auto simp: volumes_info_step_def Let_def split: prod.splits)

text \<open>
  C3, as the code has it. The loop over the volumes catches nothing. When the first \<open>n\<close>
  of the \<open>SectionDEntriesCount\<close> entries are decoded, the fixed record of the next entry
  parses, and decoding its device path raises \<open>e\<close>, then the decoder of the volumes raises
  \<open>e\<close>: it returns no entry, neither those decoded before nor those that follow. The
  cursor is where it was at the call.
\<close>

theorem device_path_failure_aborts_volumes_info:
  assumes "P = (if Version header = Label ''XP'' then PrefetchVolumeInformation17 pfs
                else if Version header = Label ''SEVEN'' then PrefetchVolumeInformation23 pfs
                else if Version header = Label ''EIGHT'' then PrefetchVolumeInformation26 pfs
                else PrefetchVolumeInformation30 pfs)"
    and "SectionDEntriesCount file_info = n + Suc m"
    and "volumes_info_loop P parse_filetime (SectionDOffset file_info) n
           (seek s (SectionDOffset file_info)) [] = (Inr entries, s0)"
    and "parse_stream P s0 = (Inr raw, s1)"
    and "parse (PaddedString (VolumeDevicePathLength raw))
           (replace [0] []
              (fst (read (seek s1 (SectionDOffset file_info + VolumeDevicePathOffset raw))
                      (VolumeDevicePathLength raw * 2)))) = Inl e"
  shows "fst (parse_volumes_info clean_value pfs parse_filetime header file_info s) = Inl e \<and>
         tell (snd (parse_volumes_info clean_value pfs parse_filetime header file_info s)) = tell s"
proof -
  let ?d = "SectionDOffset file_info"
  have step: "fst (volumes_info_step P parse_filetime ?d s0) = Inl e"
    using assms(4,5) by (rule volumes_info_step_path_failure)
  have "fst (volumes_info_loop P parse_filetime ?d (Suc m) s0 entries) = Inl e"
    using step by (cases "volumes_info_step P parse_filetime ?d s0") simp
  then have "fst (volumes_info_loop P parse_filetime ?d (n + Suc m) (seek s ?d) []) = Inl e"
    using assms(3) by (simp only: volumes_info_loop_add prod.case sum.case)
  then obtain s' where
    "volumes_info_loop P parse_filetime ?d (SectionDEntriesCount file_info) (seek s ?d) [] =
       (Inl e, s')"
    unfolding assms(2)
    by (cases "volumes_info_loop P parse_filetime ?d (n + Suc m) (seek s ?d) []") simp
  then have "fst (decode_volumes_info clean_value P parse_filetime file_info (seek s ?d)) = Inl e"
    by (simp add: decode_volumes_info_def)
  then show ?thesis
    using assms(1)
    by (simp add: parse_volumes_info_def Let_def finally_seek_def tell_def pos_seek)
qed

lemma parse_unreadable_path_record:
  "parse_stream (sample_VolumeInformation 40) (seek (BytesIO volumes_unreadable_path) 0) =
     (Inr \<lparr>VolumeDevicePathOffset = 200, VolumeDevicePathLength = 2,
           RawVolumeCreateTime = 0, SectionEOffset = 0,
           SectionFOffset = 0, SectionFStringsCount = 0\<rparr>,
      seek (BytesIO volumes_unreadable_path) 40)"
  by (simp add: parse_stream_def sample_VolumeInformation_def record_of_def stream_read_def
      field_def BytesIO_def seek_def volumes_unreadable_path_def le_nat_zeros)

lemma unreadable_path_fails:
  "parse (PaddedString 2)
     (replace [0] [] (fst (read (seek (seek (BytesIO volumes_unreadable_path) 40) 200) 4))) =
   Inl StreamError"
  by (simp add: parse_PaddedString read_def seek_def BytesIO_def volumes_unreadable_path_def)

lemma second_record_decodes:
  "fst (volumes_info_step (sample_VolumeInformation 40) sample_filetime 0
          (seek (BytesIO volumes_unreadable_path) 40)) =
     Inr \<lparr>VolumeDevicePathOffset = 0, VolumeDevicePathLength = 0,
           RawVolumeCreateTime = 0, SectionEOffset = 0,
           SectionFOffset = 0, SectionFStringsCount = 0,
           VolumeCreateTime = - 11644473600, VolumeDevicePath = []\<rparr>"
  by (simp add: volumes_info_step_def parse_stream_def sample_VolumeInformation_def record_of_def
      stream_read_def field_def BytesIO_def seek_def tell_def read_def
      volumes_unreadable_path_def le_nat_zeros parse_PaddedString decode_utf8_def
      sample_filetime_def raw_volumes_info_entry.defs volumes_info_entry.defs)

text \<open>C3 as stated fails: of two volumes, the device path of the first lies beyond the
  end of the bytes; the second entry alone would decode, with an empty device path, but
  the decoder raises and returns no list.\<close>

theorem device_path_failure_not_confined:
  "fst (parse_volumes_info (\<lambda>v. v) sample_pfstructs sample_filetime
          (example_header (Label ''XP'')) (example_file_info 0 0 0 0 0 2)
          (BytesIO volumes_unreadable_path)) = Inl StreamError \<and>
   fst (volumes_info_step (sample_VolumeInformation 40) sample_filetime 0
          (seek (BytesIO volumes_unreadable_path) 40)) =
     Inr \<lparr>VolumeDevicePathOffset = 0, VolumeDevicePathLength = 0,
           RawVolumeCreateTime = 0, SectionEOffset = 0,
           SectionFOffset = 0, SectionFStringsCount = 0,
           VolumeCreateTime = - 11644473600, VolumeDevicePath = []\<rparr>"
proof -
  have "fst (volumes_info_step (sample_VolumeInformation 40) sample_filetime 0
          (seek (BytesIO volumes_unreadable_path) 0)) = Inl StreamError"
    using volumes_info_step_path_failure [OF parse_unreadable_path_record, of 0 StreamError]
      unreadable_path_fails by simp
  then have "fst (volumes_info_loop (sample_VolumeInformation 40) sample_filetime 0 (Suc (Suc 0))
          (seek (BytesIO volumes_unreadable_path) 0) []) = Inl StreamError"
    by (cases "volumes_info_step (sample_VolumeInformation 40) sample_filetime 0
          (seek (BytesIO volumes_unreadable_path) 0)") simp
  then have "fst (parse_volumes_info (\<lambda>v. v) sample_pfstructs sample_filetime
          (example_header (Label ''XP'')) (example_file_info 0 0 0 0 0 2)
          (BytesIO volumes_unreadable_path)) = Inl StreamError"
    by (simp add: parse_volumes_info_def decode_volumes_info_def Let_def finally_seek_def
        example_header_def example_file_info_def sample_pfstructs_def numeral_2_eq_2
        split: prod.splits sum.splits)
  then show ?thesis
    using second_record_decodes by simp
qed

text \<open>The same two volumes: no entry is decoded before the first (\<open>n = 0\<close>), one follows
  it (\<open>m = 1\<close>).\<close>

theorem device_path_failure_aborts_volumes_info_witness:
  "fst (parse_volumes_info (\<lambda>v. v) sample_pfstructs sample_filetime
          (example_header (Label ''XP'')) (example_file_info 0 0 0 0 0 2)
          (BytesIO volumes_unreadable_path)) = Inl StreamError \<and>
   tell (snd (parse_volumes_info (\<lambda>v. v) sample_pfstructs sample_filetime
          (example_header (Label ''XP'')) (example_file_info 0 0 0 0 0 2)
          (BytesIO volumes_unreadable_path))) = 0"
proof -
  have P: "sample_VolumeInformation 40 =
      (if Version (example_header (Label ''XP'')) = Label ''XP''
       then PrefetchVolumeInformation17 sample_pfstructs
       else if Version (example_header (Label ''XP'')) = Label ''SEVEN''
       then PrefetchVolumeInformation23 sample_pfstructs
       else if Version (example_header (Label ''XP'')) = Label ''EIGHT''
       then PrefetchVolumeInformation26 sample_pfstructs
       else PrefetchVolumeInformation30 sample_pfstructs)"
    by (simp add: example_header_def sample_pfstructs_def)
  have c: "SectionDEntriesCount (example_file_info 0 0 0 0 0 2) = 0 + Suc 1"
    by (simp add: example_file_info_def)
  have d: "SectionDOffset (example_file_info 0 0 0 0 0 2) = 0"
    by (simp add: example_file_info_def)
  have l: "volumes_info_loop (sample_VolumeInformation 40) sample_filetime
      (SectionDOffset (example_file_info 0 0 0 0 0 2)) 0
      (seek (BytesIO volumes_unreadable_path) (SectionDOffset (example_file_info 0 0 0 0 0 2))) [] =
      (Inr [], seek (BytesIO volumes_unreadable_path) 0)"
    by (simp add: d)
  have f: "parse (PaddedString (VolumeDevicePathLength
        \<lparr>VolumeDevicePathOffset = 200, VolumeDevicePathLength = 2,
           RawVolumeCreateTime = 0, SectionEOffset = 0,
           SectionFOffset = 0, SectionFStringsCount = 0\<rparr>))
     (replace [0] [] (fst (read (seek (seek (BytesIO volumes_unreadable_path) 40)
        (SectionDOffset (example_file_info 0 0 0 0 0 2) + VolumeDevicePathOffset
        \<lparr>VolumeDevicePathOffset = 200, VolumeDevicePathLength = 2,
           RawVolumeCreateTime = 0, SectionEOffset = 0,
           SectionFOffset = 0, SectionFStringsCount = 0\<rparr>))
        (VolumeDevicePathLength
        \<lparr>VolumeDevicePathOffset = 200, VolumeDevicePathLength = 2,
           RawVolumeCreateTime = 0, SectionEOffset = 0,
           SectionFOffset = 0, SectionFStringsCount = 0\<rparr> * 2)))) = Inl StreamError"
    using unreadable_path_fails by (simp add: d)
  show ?thesis
    using device_path_failure_aborts_volumes_info [OF P c l parse_unreadable_path_record f,
        of "\<lambda>v. v"]
    by (simp add: tell_def BytesIO_def)
qed

section \<open>A metrics record that fails to decode\<close>

lemma file_metrics_loop_add:
  "file_metrics_loop ce cr P (n + k) s acc =
     (case file_metrics_loop ce cr P n s acc of
        (Inl e, s') \<Rightarrow> (Inl e, s')
      | (Inr entries, s') \<Rightarrow> file_metrics_loop ce cr P k s' entries)"
  by (induction n arbitrary: s acc) (auto split: prod.splits sum.splits)

lemma file_metrics_loop_length:
  "file_metrics_loop ce cr P n s acc = (Inr entries, s') \<Longrightarrow> length entries = length acc + n"
proof (induction n arbitrary: s acc)
  case 0
  then show ?case by simp
next
  case (Suc n)
  then show ?case
    by (cases "file_metrics_step ce cr P s") (fastforce split: sum.splits)
qed

lemma file_metrics_step_failure:
  "parse_stream P s0 = (Inl e, s1) \<Longrightarrow> file_metrics_step ce cr P s0 = (Inl e, s1)"
  by (simp add: file_metrics_step_def)

text \<open>
  C2, as the code has it. With \<open>P\<close> the layout chosen by the version of the header: when
  the decoder of the file metrics returns, it returns exactly \<open>SectionAEntriesCount\<close>
  entries, the records decoded one after the other from \<open>SectionAOffset\<close>. The loop
  catches nothing: when the first \<open>n\<close> records are decoded and parsing the next one raises
  \<open>e\<close>, the decoder raises \<open>e\<close> and returns no entry, the \<open>n\<close> decoded ones included. The
  cursor is where it was at the call.
\<close>

theorem file_metrics_count_and_failure:
  assumes "P = (if Version header = Label ''XP'' then PrefetchFileMetricsEntry17 pfs
                else if Version header = Label ''SEVEN'' then PrefetchFileMetricsEntry23 pfs
                else if Version header = Label ''EIGHT'' then PrefetchFileMetricsEntry26 pfs
                else PrefetchFileMetricsEntry30 pfs)"
  shows "(\<forall>result. fst (parse_file_metrics clean_value ce cr pfs header file_info s) = Inr result \<longrightarrow>
            (\<exists>entries s1.
               file_metrics_loop ce cr P (SectionAEntriesCount file_info)
                 (seek s (SectionAOffset file_info)) [] = (Inr entries, s1) \<and>
               result = clean_value entries \<and>
               length entries = SectionAEntriesCount file_info)) \<and>
         (\<forall>n m entries s0 e s1.
            SectionAEntriesCount file_info = n + Suc m \<and>
            file_metrics_loop ce cr P n (seek s (SectionAOffset file_info)) [] = (Inr entries, s0) \<and>
            parse_stream P s0 = (Inl e, s1) \<longrightarrow>
            fst (parse_file_metrics clean_value ce cr pfs header file_info s) = Inl e \<and>
            tell (snd (parse_file_metrics clean_value ce cr pfs header file_info s)) = tell s)"
proof -
  let ?a = "SectionAOffset file_info" and ?c = "SectionAEntriesCount file_info"
  have unfold: "parse_file_metrics clean_value ce cr pfs header file_info s =
      finally_seek (decode_file_metrics clean_value ce cr P file_info (seek s ?a)) (tell s)"
    using assms by (simp add: parse_file_metrics_def Let_def)
  have success: "\<exists>entries s1.
      file_metrics_loop ce cr P ?c (seek s ?a) [] = (Inr entries, s1) \<and>
      result = clean_value entries \<and> length entries = ?c"
    if "fst (parse_file_metrics clean_value ce cr pfs header file_info s) = Inr result" for result
  proof -
    obtain r s1 where l: "file_metrics_loop ce cr P ?c (seek s ?a) [] = (r, s1)"
      by (cases "file_metrics_loop ce cr P ?c (seek s ?a) []")
    show ?thesis
    proof (cases r)
      case (Inl e)
      then show ?thesis
        using that l by (simp add: unfold finally_seek_def decode_file_metrics_def)
    next
      case (Inr entries)
      then have "length entries = ?c"
        using file_metrics_loop_length [of ce cr P ?c "seek s ?a" "[]" entries s1] l by simp
      then show ?thesis
        using that l Inr by (simp add: unfold finally_seek_def decode_file_metrics_def)
    qed
  qed
  have failure: "fst (parse_file_metrics clean_value ce cr pfs header file_info s) = Inl e \<and>
      tell (snd (parse_file_metrics clean_value ce cr pfs header file_info s)) = tell s"
    if "?c = n + Suc m" and "file_metrics_loop ce cr P n (seek s ?a) [] = (Inr entries, s0)"
      and "parse_stream P s0 = (Inl e, s1)" for n m entries s0 e s1
  proof -
    have "file_metrics_loop ce cr P (Suc m) s0 entries = (Inl e, s1)"
      using file_metrics_step_failure [OF that(3), of ce cr] by simp
    then have "file_metrics_loop ce cr P (n + Suc m) (seek s ?a) [] = (Inl e, s1)"
      using that(2) by (simp only: file_metrics_loop_add prod.case sum.case)
    then have "file_metrics_loop ce cr P ?c (seek s ?a) [] = (Inl e, s1)"
      by (simp only: that(1))
    then have "decode_file_metrics clean_value ce cr P file_info (seek s ?a) = (Inl e, s1)"
      by (simp add: decode_file_metrics_def)
    then show ?thesis
      by (simp add: unfold finally_seek_def tell_def pos_seek)
  qed
  show ?thesis
    using success failure by blast
qed

lemma parse_truncated_first:
  "parse_stream sample_FileMetricsEntry23 (seek (BytesIO metrics_truncated) 0) =
     (Inr \<lparr>FileReference = Some \<lparr>SegmentNumber = 7, SequenceNumber = 0\<rparr>, \<dots> = [1, 2, 3, 4, 5, 6]\<rparr>, seek (BytesIO metrics_truncated) 32)"
  by (simp add: parse_stream_def sample_FileMetricsEntry23_def stream_read_def record_of_def
      reference_of_def field_def seek_def BytesIO_def metrics_record_def metrics_truncated_def)

lemma parse_truncated_second:
  "parse_stream sample_FileMetricsEntry23 (seek (BytesIO metrics_truncated) 32) =
     (Inl StreamError, seek (BytesIO metrics_truncated) 35)"
  by (simp add: parse_stream_def sample_FileMetricsEntry23_def stream_read_def record_of_def
      reference_of_def field_def seek_def BytesIO_def metrics_record_def metrics_truncated_def)

lemma truncated_first_step:
  "file_metrics_step (\<lambda>v. v) (\<lambda>v. v) sample_FileMetricsEntry23
       (seek (BytesIO metrics_truncated) 0) =
     (Inr \<lparr>FileReference = Some \<lparr>SegmentNumber = 7, SequenceNumber = 0\<rparr>, \<dots> = [1, 2, 3, 4, 5, 6]\<rparr>, seek (BytesIO metrics_truncated) 32)"
  by (simp add: file_metrics_step_def parse_truncated_first)

text \<open>C2 as stated fails: of two records declared, the first is whole and decodes, the
  second is cut after three bytes; the decoder raises and returns no list, so the first
  entry is not kept.\<close>

theorem short_read_discards_decoded_metrics:
  "fst (file_metrics_step (\<lambda>v. v) (\<lambda>v. v) sample_FileMetricsEntry23
          (seek (BytesIO metrics_truncated) 0)) =
     Inr \<lparr>FileReference = Some \<lparr>SegmentNumber = 7, SequenceNumber = 0\<rparr>, \<dots> = [1, 2, 3, 4, 5, 6]\<rparr> \<and>
   fst (parse_file_metrics (\<lambda>v. v) (\<lambda>v. v) (\<lambda>v. v) sample_pfstructs
          (example_header (Label ''TEN'')) (example_file_info 0 2 0 0 0 0)
          (BytesIO metrics_truncated)) = Inl StreamError"
proof -
  have "file_metrics_loop (\<lambda>v. v) (\<lambda>v. v) sample_FileMetricsEntry23 (Suc (Suc 0))
      (seek (BytesIO metrics_truncated) 0) [] = (Inl StreamError, seek (BytesIO metrics_truncated) 35)"
    by (simp add: truncated_first_step file_metrics_step_failure [OF parse_truncated_second])
  then have "fst (parse_file_metrics (\<lambda>v. v) (\<lambda>v. v) (\<lambda>v. v) sample_pfstructs
          (example_header (Label ''TEN'')) (example_file_info 0 2 0 0 0 0)
          (BytesIO metrics_truncated)) = Inl StreamError"
    by (simp add: parse_file_metrics_def decode_file_metrics_def Let_def finally_seek_def
        example_header_def example_file_info_def sample_pfstructs_def numeral_2_eq_2)
  then show ?thesis
    by (simp add: truncated_first_step)
qed

text \<open>The same bytes: one record is decoded (\<open>n = 1\<close>), the next is short, none
  follows (\<open>m = 0\<close>).\<close>

theorem file_metrics_count_and_failure_witness:
  "fst (parse_file_metrics (\<lambda>v. v) (\<lambda>v. v) (\<lambda>v. v) sample_pfstructs
          (example_header (Label ''TEN'')) (example_file_info 0 2 0 0 0 0)
          (BytesIO metrics_truncated)) = Inl StreamError \<and>
   tell (snd (parse_file_metrics (\<lambda>v. v) (\<lambda>v. v) (\<lambda>v. v) sample_pfstructs
          (example_header (Label ''TEN'')) (example_file_info 0 2 0 0 0 0)
          (BytesIO metrics_truncated))) = 0"
proof -
  have P: "sample_FileMetricsEntry23 =
      (if Version (example_header (Label ''TEN'')) = Label ''XP''
       then PrefetchFileMetricsEntry17 sample_pfstructs
       else if Version (example_header (Label ''TEN'')) = Label ''SEVEN''
       then PrefetchFileMetricsEntry23 sample_pfstructs
       else if Version (example_header (Label ''TEN'')) = Label ''EIGHT''
       then PrefetchFileMetricsEntry26 sample_pfstructs
       else PrefetchFileMetricsEntry30 sample_pfstructs)"
    by (simp add: example_header_def sample_pfstructs_def)
  have c: "SectionAEntriesCount (example_file_info 0 2 0 0 0 0) = 1 + Suc 0"
    by (simp add: example_file_info_def)
  have l: "file_metrics_loop (\<lambda>v. v) (\<lambda>v. v) sample_FileMetricsEntry23 1
      (seek (BytesIO metrics_truncated) (SectionAOffset (example_file_info 0 2 0 0 0 0))) [] =
      (Inr [\<lparr>FileReference = Some \<lparr>SegmentNumber = 7, SequenceNumber = 0\<rparr>, \<dots> = [1, 2, 3, 4, 5, 6]\<rparr>],
       seek (BytesIO metrics_truncated) 32)"
    by (simp add: example_file_info_def truncated_first_step)
  show ?thesis
    using file_metrics_count_and_failure [OF P, of "\<lambda>v. v" "\<lambda>v. v" "\<lambda>v. v"
        "example_file_info 0 2 0 0 0 0" "BytesIO metrics_truncated", THEN conjunct2,
        rule_format, of 1 0, OF conjI [OF c conjI [OF l parse_truncated_second]]]
    by (simp add: tell_def BytesIO_def)
qed

section \<open>The bound of the filename strings\<close>

lemma filename_strings_loop_beyond:
  "int (SectionCLength file_info) < int (tell s) - int (SectionCOffset file_info) \<Longrightarrow>
   filename_strings_loop P file_info ms s acc = (Inr (acc @ replicate (length ms) None), s)"
  by (induction ms arbitrary: acc) (simp_all add: replicate_app_Cons_same)

text \<open>
  C1 does not hold of the code: the test of the loop is \<open>\<le>\<close>, not \<open><\<close>. For every metrics
  entry, while the offset of the cursor from \<open>SectionCOffset\<close> is at most \<open>SectionCLength\<close>,
  the table being exactly exhausted included, the loop parses one more string at the
  cursor (and raises when that parse raises); only once the offset is greater than the
  length does it give \<open>None\<close> for this entry and all that remain, without reading.
\<close>

theorem filename_strings_bound_is_inclusive:
  "(int (tell s) - int (SectionCOffset file_info) \<le> int (SectionCLength file_info) \<longrightarrow>
      filename_strings_loop P file_info (file_metric # rest) s filename_strings =
        (case parse_stream P s of
           (Inl e, s') \<Rightarrow> (Inl e, s')
         | (Inr v, s') \<Rightarrow> filename_strings_loop P file_info rest s' (filename_strings @ [Some v]))) \<and>
   (int (SectionCLength file_info) < int (tell s) - int (SectionCOffset file_info) \<longrightarrow>
      filename_strings_loop P file_info (file_metric # rest) s filename_strings =
        (Inr (filename_strings @ replicate (length (file_metric # rest)) None), s))"
  using filename_strings_loop_beyond [of file_info s P "file_metric # rest" filename_strings]
  by simp

lemma filename_string_at_0:
  "parse_stream sample_FileNameString (seek (BytesIO filename_table) 0) =
     (Inr [65, 66], seek (BytesIO filename_table) 6)"
  by (simp add: parse_stream_def sample_FileNameString_def Int16ul_def IntNul_def
      stream_read_def record_of_def seek_def BytesIO_def filename_table_def decode_utf16_def)

lemma filename_string_at_6:
  "parse_stream sample_FileNameString (seek (BytesIO filename_table) 6) =
     (Inr [90], seek (BytesIO filename_table) 10)"
  by (simp add: parse_stream_def sample_FileNameString_def Int16ul_def IntNul_def
      stream_read_def record_of_def seek_def BytesIO_def filename_table_def decode_utf16_def)

text \<open>A table of six bytes that holds the one string \<open>AB\<close>, followed by four bytes
  that are not part of it, and two metrics entries: the table is exhausted after one
  entry, and the second entry is not \<open>None\<close> but the string \<open>Z\<close>, read from the bytes
  after the table.\<close>

theorem filename_strings_bound_is_inclusive_witness:
  "parse_filename_strings (\<lambda>v. v) sample_pfstructs (example_file_info 0 2 0 6 0 0) two_metrics
     (BytesIO filename_table) =
   (Inr [Some [65, 66], Some [90]], BytesIO filename_table)"
proof -
  let ?fi = "example_file_info 0 2 0 6 0 0"
  have c: "SectionCOffset ?fi = 0" "SectionCLength ?fi = 6"
    by (simp_all add: example_file_info_def)
  have first: "filename_strings_loop sample_FileNameString ?fi two_metrics
      (seek (BytesIO filename_table) 0) [] =
      filename_strings_loop sample_FileNameString ?fi (tl two_metrics)
        (seek (BytesIO filename_table) 6) [Some [65, 66]]"
    using filename_strings_bound_is_inclusive [of "seek (BytesIO filename_table) 0" ?fi
        sample_FileNameString "hd two_metrics" "tl two_metrics" "[]", THEN conjunct1]
    by (simp add: c tell_def pos_seek filename_string_at_0 two_metrics_def)
  have second: "filename_strings_loop sample_FileNameString ?fi (tl two_metrics)
        (seek (BytesIO filename_table) 6) [Some [65, 66]] =
      (Inr [Some [65, 66], Some [90]], seek (BytesIO filename_table) 10)"
    using filename_strings_bound_is_inclusive [of "seek (BytesIO filename_table) 6" ?fi
        sample_FileNameString "hd (tl two_metrics)" "[]" "[Some [65, 66]]", THEN conjunct1]
    by (simp add: c tell_def pos_seek filename_string_at_6 two_metrics_def)
  have "parse_filename_strings (\<lambda>v. v) sample_pfstructs ?fi two_metrics (BytesIO filename_table) =
      finally_seek
        (case filename_strings_loop sample_FileNameString ?fi two_metrics
                (seek (BytesIO filename_table) 0) [] of
           (Inl e, s') \<Rightarrow> (Inl e, s')
         | (Inr filename_strings, s') \<Rightarrow> (Inr filename_strings, s'))
        (tell (BytesIO filename_table))"
    by (simp add: parse_filename_strings_def Let_def c sample_pfstructs_def)
  also have "\<dots> = (Inr [Some [65, 66], Some [90]], BytesIO filename_table)"
    unfolding first second by (simp add: finally_seek_def tell_def seek_def BytesIO_def)
  finally show ?thesis .
qed

section \<open>The choice of the layout\<close>

text \<open>
  C10. When the version of the header is none of \<open>XP\<close>, \<open>SEVEN\<close> and \<open>EIGHT\<close>, the
  decoders of the file information, of the file metrics and of the volumes decode with
  the layouts of version 30: the last branch of each choice is an \<^verbatim>\<open>else\<close>, and no
  version makes the choice raise.
\<close>

theorem unknown_version_dispatch:
  assumes "Version header \<noteq> Label ''XP''" and "Version header \<noteq> Label ''SEVEN''"
    and "Version header \<noteq> Label ''EIGHT''"
  shows "parse_file_info c1 pfs parse_filetime header s =
           decode_file_info c1 (PrefetchFileInformation30 pfs) parse_filetime s \<and>
         parse_file_metrics c2 ce cr pfs header file_info s =
           finally_seek
             (decode_file_metrics c2 ce cr (PrefetchFileMetricsEntry30 pfs) file_info
                (seek s (SectionAOffset file_info)))
             (tell s) \<and>
         parse_volumes_info c3 pfs parse_filetime header file_info s =
           finally_seek
             (decode_volumes_info c3 (PrefetchVolumeInformation30 pfs) parse_filetime file_info
                (seek s (SectionDOffset file_info)))
             (tell s)"
  using assms
  by (simp add: parse_file_info_def parse_file_metrics_def parse_volumes_info_def Let_def)

lemma parse_metrics_record:
  "parse_stream sample_FileMetricsEntry23 (seek (BytesIO metrics_record) 0) =
     (Inr \<lparr>FileReference = Some \<lparr>SegmentNumber = 7, SequenceNumber = 0\<rparr>, \<dots> = [1, 2, 3, 4, 5, 6]\<rparr>, seek (BytesIO metrics_record) 32)"
  by (simp add: parse_stream_def sample_FileMetricsEntry23_def stream_read_def record_of_def
      reference_of_def field_def seek_def BytesIO_def metrics_record_def)

text \<open>A header whose version is the bare number 31: the metrics are decoded with the
  layout of version 30, which has a file reference.\<close>

theorem unknown_version_dispatch_witness:
  "Version (example_header (Number 31)) \<noteq> Label ''XP'' \<and>
   Version (example_header (Number 31)) \<noteq> Label ''SEVEN'' \<and>
   Version (example_header (Number 31)) \<noteq> Label ''EIGHT'' \<and>
   parse_file_metrics (\<lambda>v. v) (\<lambda>v. v) (\<lambda>v. v) sample_pfstructs (example_header (Number 31))
     (example_file_info 0 1 0 0 0 0) (BytesIO metrics_record) =
   (Inr [\<lparr>FileReference = Some \<lparr>SegmentNumber = 7, SequenceNumber = 0\<rparr>, \<dots> = [1, 2, 3, 4, 5, 6]\<rparr>], BytesIO metrics_record)"
proof -
  have v: "Version (example_header (Number 31)) \<noteq> Label ''XP''"
    "Version (example_header (Number 31)) \<noteq> Label ''SEVEN''"
    "Version (example_header (Number 31)) \<noteq> Label ''EIGHT''"
    by (simp_all add: example_header_def)
  have "decode_file_metrics (\<lambda>v. v) (\<lambda>v. v) (\<lambda>v. v) (PrefetchFileMetricsEntry30 sample_pfstructs)
          (example_file_info 0 1 0 0 0 0) (seek (BytesIO metrics_record) 0) =
        (Inr [\<lparr>FileReference = Some \<lparr>SegmentNumber = 7, SequenceNumber = 0\<rparr>, \<dots> = [1, 2, 3, 4, 5, 6]\<rparr>],
         seek (BytesIO metrics_record) 32)"
    by (simp add: decode_file_metrics_def file_metrics_step_def example_file_info_def
        sample_pfstructs_def parse_metrics_record)
  then show ?thesis
    using v unknown_version_dispatch [OF v, of "\<lambda>v. v" sample_pfstructs sample_filetime
        "BytesIO metrics_record" "\<lambda>v. v" "\<lambda>v. v" "\<lambda>v. v" "example_file_info 0 1 0 0 0 0" "\<lambda>v. v"]
    by (simp add: example_file_info_def finally_seek_def seek_def tell_def BytesIO_def)
qed

end
